theory Spec2Isabelle
  imports Main "HOL-Library.Word"
begin

unbundle bit_operations_syntax

section \<open>Cogl vertex attributes and their draw submission (cogl-vertex-attribute.c)\<close>

text \<open>
  The embedding follows \<^verbatim>\<open>clutter/cogl/cogl/cogl-vertex-attribute.c\<close> as it is compiled
  with \<^verbatim>\<open>HAVE_COGL_GL\<close> (so \<^verbatim>\<open>MAY_HAVE_PROGRAMABLE_GL\<close> is defined and the
  \<^verbatim>\<open>GL_QUADS\<close> branch of the wireframe code is present) and \<^verbatim>\<open>COGL_ENABLE_DEBUG\<close>,
  on an LP64 target: \<^verbatim>\<open>gsize\<close>, \<^verbatim>\<open>size_t\<close> and pointers are 64-bit words,
  \<^verbatim>\<open>guint32\<close>, \<^verbatim>\<open>unsigned int\<close> and \<^verbatim>\<open>GLuint\<close> are 32-bit words. A C \<^verbatim>\<open>int\<close> that is
  only compared, copied or counted is an \<open>int\<close>; where it is converted to an unsigned
  type the conversion is \<open>of_int\<close>, which is C's reduction modulo the width.

  Objects are referred to by handles (\<open>nat\<close>); every pointer of the source that is
  passed around becomes the handle of the object it points to. The file-static
  variables and the globals the file touches are fields of one state record, which
  every function takes and returns. A function keeps its name, without the leading
  underscore where it has one; \<^verbatim>\<open>cogl_object_ref\<close> and \<^verbatim>\<open>cogl_object_unref\<close> carry
  the type of the object they are applied to in their name. A Cogl context exists
  throughout (\<^verbatim>\<open>_COGL_GET_CONTEXT\<close> finds it).
\<close>

subsection \<open>Types\<close>

type_synonym gsize = "64 word"
type_synonym pointer = "64 word"
type_synonym guint32 = "32 word"
type_synonym GLuint = "32 word"

text \<open>A C \<^verbatim>\<open>float\<close> is only ever copied here, so it is its 32-bit pattern; the
  constant \<^verbatim>\<open>0\<close> stored into a float is the all-zero pattern.\<close>

type_synonym float = "32 word"

datatype CoglVertexAttributeNameID =
    COGL_VERTEX_ATTRIBUTE_NAME_ID_POSITION_ARRAY
  | COGL_VERTEX_ATTRIBUTE_NAME_ID_COLOR_ARRAY
  | COGL_VERTEX_ATTRIBUTE_NAME_ID_TEXTURE_COORD_ARRAY
  | COGL_VERTEX_ATTRIBUTE_NAME_ID_NORMAL_ARRAY
  | COGL_VERTEX_ATTRIBUTE_NAME_ID_CUSTOM_ARRAY

datatype CoglVertexAttributeType =
    COGL_VERTEX_ATTRIBUTE_TYPE_BYTE
  | COGL_VERTEX_ATTRIBUTE_TYPE_UNSIGNED_BYTE
  | COGL_VERTEX_ATTRIBUTE_TYPE_SHORT
  | COGL_VERTEX_ATTRIBUTE_TYPE_UNSIGNED_SHORT
  | COGL_VERTEX_ATTRIBUTE_TYPE_FLOAT

text \<open>What \<^verbatim>\<open>g_critical\<close> and \<^verbatim>\<open>g_warning\<close> print, one constructor per message of
  the file.\<close>

datatype diagnostic =
    Critical_position_n_components
  | Critical_color_n_components
  | Warning_tex_coord_name
  | Critical_normal_n_components
  | Warning_unknown_cogl_name string
  | Warning_midscene_modification
  | Warning_disabling_layer int
  | Warning_unrecognised_attribute_type
  | Critical_assertion_failed

text \<open>\<^verbatim>\<open>struct _CoglVertexAttribute\<close>; \<open>ref_count\<close> is the count of its
  \<^verbatim>\<open>CoglObject _parent\<close>.\<close>

record CoglVertexAttribute =
  ref_count :: nat
  array :: nat
  name :: string
  stride :: gsize
  offset :: gsize
  n_components :: int
  type :: CoglVertexAttributeType
  normalized :: bool
  name_id :: CoglVertexAttributeNameID
  texture_unit :: guint32
  immutable_ref :: int

text \<open>The part of the process state the attribute functions read and write:
  the reference counts of the vertex arrays (0: no live array at that handle), the
  immutable pins of their buffers, the live attribute objects, the allocator's next
  handle, the static \<^verbatim>\<open>seen\<close> of \<^verbatim>\<open>warn_about_midscene_changes\<close> and the messages
  printed so far.\<close>

record object_state =
  array_ref_count :: "nat \<Rightarrow> nat"
  buffer_immutable_ref :: "nat \<Rightarrow> int"
  attributes :: "nat \<Rightarrow> CoglVertexAttribute option"
  next_handle :: nat
  seen :: bool
  messages :: "diagnostic list"

subsection \<open>Reference counting (CoglObject)\<close>

text \<open>Modelled from the spec: \<^verbatim>\<open>cogl_object_ref\<close> (cogl-object.c, which is not
  among the sources), on a vertex array. The spec's data model says a vertex array
  is shared and reference-counted: taking a reference adds one to its count.\<close>

definition cogl_object_ref_array :: "nat \<Rightarrow> 'a object_state_scheme \<Rightarrow> 'a object_state_scheme" where
  "cogl_object_ref_array a s =
     s\<lparr>array_ref_count := (array_ref_count s)(a := array_ref_count s a + 1)\<rparr>"

text \<open>Modelled from the spec: \<^verbatim>\<open>cogl_object_unref\<close> (cogl-object.c, not among the
  sources), on a vertex array. Dropping a reference takes one from the count, and
  the array is released when the last reference goes (count 0); an unref of an
  object that has no reference left changes nothing.\<close>

definition cogl_object_unref_array :: "nat \<Rightarrow> 'a object_state_scheme \<Rightarrow> 'a object_state_scheme" where
  "cogl_object_unref_array a s =
     (if array_ref_count s a = 0 then s
      else s\<lparr>array_ref_count := (array_ref_count s)(a := array_ref_count s a - 1)\<rparr>)"

subsection \<open>Parsing the attribute name\<close>

text \<open>The \<^verbatim>\<open>%u\<close> directive of \<^verbatim>\<open>sscanf\<close>: white space is skipped, an optional sign
  is read, then decimal digits, at least one. The value is stored into an
  \<^verbatim>\<open>unsigned int\<close>; a minus sign negates it there. (C leaves a value that does not
  fit undefined; here it is reduced modulo \<open>2^32\<close>.)\<close>

definition isspace :: "char \<Rightarrow> bool" where
  "isspace c = (c = CHR '' '' \<or> c = CHR 0x09 \<or> c = CHR 0x0A \<or> c = CHR 0x0B
                \<or> c = CHR 0x0C \<or> c = CHR 0x0D)"

definition isdigit :: "char \<Rightarrow> bool" where
  "isdigit c = ((48::nat) \<le> of_char c \<and> of_char c \<le> (57::nat))"

fun decimal_value :: "nat \<Rightarrow> string \<Rightarrow> nat" where
  "decimal_value acc [] = acc"
| "decimal_value acc (c # cs) = decimal_value (10 * acc + (of_char c - 48)) cs"

definition scan_unsigned :: "string \<Rightarrow> guint32 option" where
  "scan_unsigned s =
     (let s1 = dropWhile isspace s;
          neg = (case s1 of [] \<Rightarrow> False | c # _ \<Rightarrow> c = CHR ''-'');
          s2 = (case s1 of [] \<Rightarrow> []
                | c # r \<Rightarrow> if c = CHR ''-'' \<or> c = CHR ''+'' then r else s1);
          ds = takeWhile isdigit s2
      in if ds = [] then None
         else Some (if neg then - of_nat (decimal_value 0 ds)
                    else of_nat (decimal_value 0 ds)))"

text \<open>\<^verbatim>\<open>sscanf (name, "tex_coord%u_in", texture_unit)\<close>: \<open>Some u\<close> when the call
  returns 1 and has stored \<open>u\<close>, \<open>None\<close> for any other return value (0 or
  \<^verbatim>\<open>EOF\<close>). Once the number is converted the return value is 1 whether or not
  the literal \<^verbatim>\<open>_in\<close> follows.\<close>

definition sscanf_tex_coord_u_in :: "string \<Rightarrow> guint32 option" where
  "sscanf_tex_coord_u_in s =
     (if take 9 s = ''tex_coord'' then scan_unsigned (drop 9 s) else None)"

subsection \<open>validate_cogl_attribute and cogl_vertex_attribute_new\<close>

text \<open>\<^verbatim>\<open>validate_cogl_attribute\<close>: \<open>Inl d\<close> is the return value \<^verbatim>\<open>FALSE\<close> after
  printing \<open>d\<close>; \<open>Inr (name_id, normalized, texture_unit)\<close> is \<^verbatim>\<open>TRUE\<close> with the
  three out-parameters. \<^verbatim>\<open>*normalized\<close> and \<^verbatim>\<open>*texture_unit\<close> start as
  \<^verbatim>\<open>FALSE\<close> and 0 and are overwritten only where the source does.\<close>

definition validate_cogl_attribute ::
  "string \<Rightarrow> int \<Rightarrow> diagnostic + (CoglVertexAttributeNameID \<times> bool \<times> guint32)" where
  "validate_cogl_attribute full_name n =
     (let nm = drop 5 full_name in
      if nm = ''position_in'' then
        (if n = 1 then Inl Critical_position_n_components
         else Inr (COGL_VERTEX_ATTRIBUTE_NAME_ID_POSITION_ARRAY, False, 0))
      else if nm = ''color_in'' then
        (if n \<noteq> 3 \<and> n \<noteq> 4 then Inl Critical_color_n_components
         else Inr (COGL_VERTEX_ATTRIBUTE_NAME_ID_COLOR_ARRAY, False, 0))
      else if nm = ''tex_coord_in'' then
        Inr (COGL_VERTEX_ATTRIBUTE_NAME_ID_TEXTURE_COORD_ARRAY, False, 0)
      else if take 9 nm = ''tex_coord'' then
        (case sscanf_tex_coord_u_in nm of
           None \<Rightarrow> Inl Warning_tex_coord_name
         | Some u \<Rightarrow> Inr (COGL_VERTEX_ATTRIBUTE_NAME_ID_TEXTURE_COORD_ARRAY, False, u))
      else if nm = ''normal'' then
        (if n \<noteq> 3 then Inl Critical_normal_n_components
         else Inr (COGL_VERTEX_ATTRIBUTE_NAME_ID_NORMAL_ARRAY, True, 0))
      else Inl (Warning_unknown_cogl_name nm))"

text \<open>\<^verbatim>\<open>_cogl_vertex_attribute_free\<close>: drops the attribute's reference on its array
  (the name and the slice are plain memory).\<close>

definition cogl_vertex_attribute_free :: "nat \<Rightarrow> 'a object_state_scheme \<Rightarrow> 'a object_state_scheme" where
  "cogl_vertex_attribute_free arr s = cogl_object_unref_array arr s"

text \<open>\<^verbatim>\<open>cogl_vertex_attribute_new\<close>: \<open>None\<close> is the \<^verbatim>\<open>NULL\<close> result, \<open>Some h\<close>
  the handle of the new attribute object, which starts with one reference.\<close>

definition cogl_vertex_attribute_new ::
  "nat \<Rightarrow> string \<Rightarrow> gsize \<Rightarrow> gsize \<Rightarrow> int \<Rightarrow> CoglVertexAttributeType
     \<Rightarrow> 'a object_state_scheme \<Rightarrow> nat option \<times> 'a object_state_scheme" where
  "cogl_vertex_attribute_new arr nm strd offs n ty s =
     (let s1 = cogl_object_ref_array arr s;
          status = (if take 5 nm = ''cogl_'' then validate_cogl_attribute nm n
                    else Inr (COGL_VERTEX_ATTRIBUTE_NAME_ID_CUSTOM_ARRAY, False, 0))
      in case status of
           Inl d \<Rightarrow>
             (None, cogl_vertex_attribute_free arr (s1\<lparr>messages := messages s1 @ [d]\<rparr>))
         | Inr (nid, norm, tex_unit) \<Rightarrow>
             (Some (next_handle s1),
              s1\<lparr>attributes := (attributes s1)(next_handle s1 \<mapsto>
                     \<lparr>ref_count = 1, array = arr, name = nm, stride = strd, offset = offs,
                      n_components = n, type = ty, normalized = norm, name_id = nid,
                      texture_unit = tex_unit, immutable_ref = 0\<rparr>),
                  next_handle := Suc (next_handle s1)\<rparr>))"

text \<open>The attribute object a call of the constructor returned: \<open>None\<close> when it
  returned \<^verbatim>\<open>NULL\<close>.\<close>

definition constructed :: "nat option \<times> 'a object_state_scheme \<Rightarrow> CoglVertexAttribute option" where
  "constructed r = (case fst r of None \<Rightarrow> None | Some h \<Rightarrow> attributes (snd r) h)"

subsection \<open>Accessors and setters\<close>

text \<open>\<^verbatim>\<open>g_return_if_fail (cogl_is_vertex_attribute (attribute))\<close>: a handle that is
  not a live attribute object makes the function print a critical message and
  return at once.\<close>

definition return_if_fail :: "'a object_state_scheme \<Rightarrow> 'a object_state_scheme" where
  "return_if_fail s = s\<lparr>messages := messages s @ [Critical_assertion_failed]\<rparr>"

definition cogl_vertex_attribute_get_normalized :: "nat \<Rightarrow> 'a object_state_scheme \<Rightarrow> bool" where
  "cogl_vertex_attribute_get_normalized h s =
     (case attributes s h of None \<Rightarrow> False | Some a \<Rightarrow> normalized a)"

definition warn_about_midscene_changes :: "'a object_state_scheme \<Rightarrow> 'a object_state_scheme" where
  "warn_about_midscene_changes s =
     (if \<not> seen s
      then s\<lparr>messages := messages s @ [Warning_midscene_modification], seen := True\<rparr>
      else s)"

definition cogl_vertex_attribute_set_normalized ::
  "nat \<Rightarrow> bool \<Rightarrow> 'a object_state_scheme \<Rightarrow> 'a object_state_scheme" where
  "cogl_vertex_attribute_set_normalized h b s =
     (case attributes s h of
        None \<Rightarrow> return_if_fail s
      | Some a \<Rightarrow>
          (let s1 = (if immutable_ref a \<noteq> 0 then warn_about_midscene_changes s else s)
           in s1\<lparr>attributes := (attributes s1)(h \<mapsto> a\<lparr>normalized := b\<rparr>)\<rparr>))"

definition cogl_vertex_attribute_get_array :: "nat \<Rightarrow> 'a object_state_scheme \<Rightarrow> nat option" where
  "cogl_vertex_attribute_get_array h s =
     (case attributes s h of None \<Rightarrow> None | Some a \<Rightarrow> Some (array a))"

text \<open>\<^verbatim>\<open>cogl_vertex_attribute_set_array\<close>, statement by statement: the list holds
  the state after the warning check, after \<^verbatim>\<open>cogl_object_ref (array)\<close>, after
  \<^verbatim>\<open>cogl_object_unref (attribute->array)\<close> and after the assignment. The function
  itself returns the last of them.\<close>

definition cogl_vertex_attribute_set_array_steps ::
  "nat \<Rightarrow> nat \<Rightarrow> 'a object_state_scheme \<Rightarrow> 'a object_state_scheme list" where
  "cogl_vertex_attribute_set_array_steps h arr s =
     (case attributes s h of
        None \<Rightarrow> [return_if_fail s]
      | Some a \<Rightarrow>
          (let s1 = (if immutable_ref a \<noteq> 0 then warn_about_midscene_changes s else s);
               s2 = cogl_object_ref_array arr s1;
               s3 = cogl_object_unref_array (array a) s2;
               s4 = s3\<lparr>attributes := (attributes s3)(h \<mapsto> a\<lparr>array := arr\<rparr>)\<rparr>
           in [s1, s2, s3, s4]))"

definition cogl_vertex_attribute_set_array ::
  "nat \<Rightarrow> nat \<Rightarrow> 'a object_state_scheme \<Rightarrow> 'a object_state_scheme" where
  "cogl_vertex_attribute_set_array h arr s = last (cogl_vertex_attribute_set_array_steps h arr s)"

text \<open>\<^verbatim>\<open>_cogl_vertex_attribute_immutable_ref\<close> and
  \<^verbatim>\<open>_cogl_vertex_attribute_immutable_unref\<close>. The calls they forward to,
  \<^verbatim>\<open>_cogl_buffer_immutable_ref\<close> and \<^verbatim>\<open>_cogl_buffer_immutable_unref\<close> (cogl-buffer.c,
  not among the sources), count the pins of the backing buffer, as the spec
  describes them.\<close>

definition cogl_vertex_attribute_immutable_ref ::
  "nat \<Rightarrow> 'a object_state_scheme \<Rightarrow> nat option \<times> 'a object_state_scheme" where
  "cogl_vertex_attribute_immutable_ref h s =
     (case attributes s h of
        None \<Rightarrow> (None, return_if_fail s)
      | Some a \<Rightarrow>
          (Some h,
           s\<lparr>attributes := (attributes s)(h \<mapsto> a\<lparr>immutable_ref := immutable_ref a + 1\<rparr>),
             buffer_immutable_ref :=
               (buffer_immutable_ref s)(array a := buffer_immutable_ref s (array a) + 1)\<rparr>))"

definition cogl_vertex_attribute_immutable_unref ::
  "nat \<Rightarrow> 'a object_state_scheme \<Rightarrow> 'a object_state_scheme" where
  "cogl_vertex_attribute_immutable_unref h s =
     (case attributes s h of
        None \<Rightarrow> return_if_fail s
      | Some a \<Rightarrow>
          if \<not> immutable_ref a > 0 then return_if_fail s
          else s\<lparr>attributes := (attributes s)(h \<mapsto> a\<lparr>immutable_ref := immutable_ref a - 1\<rparr>),
                 buffer_immutable_ref :=
                   (buffer_immutable_ref s)(array a := buffer_immutable_ref s (array a) - 1)\<rparr>)"

text \<open>Modelled from the spec: \<^verbatim>\<open>cogl_object_unref\<close> (cogl-object.c, not among the
  sources), on an attribute object: it takes one from the count, and the last
  reference runs the object's free function, \<^verbatim>\<open>_cogl_vertex_attribute_free\<close>. On
  \<^verbatim>\<open>NULL\<close> or an object without a reference it changes nothing.\<close>

definition cogl_object_unref_attribute :: "nat \<Rightarrow> 'a object_state_scheme \<Rightarrow> 'a object_state_scheme" where
  "cogl_object_unref_attribute h s =
     (case attributes s h of
        None \<Rightarrow> s
      | Some a \<Rightarrow>
          if ref_count a = 0 then s
          else if ref_count a = 1
          then cogl_vertex_attribute_free (array a) (s\<lparr>attributes := (attributes s)(h := None)\<rparr>)
          else s\<lparr>attributes := (attributes s)(h \<mapsto> a\<lparr>ref_count := ref_count a - 1\<rparr>)\<rparr>)"

text \<open>A sequence of setter calls, as a program may issue them over its life.\<close>

datatype setter_call = Set_normalized nat bool | Set_array nat nat

fun run_setter :: "setter_call \<Rightarrow> 'a object_state_scheme \<Rightarrow> 'a object_state_scheme" where
  "run_setter (Set_normalized h b) s = cogl_vertex_attribute_set_normalized h b s"
| "run_setter (Set_array h arr) s = cogl_vertex_attribute_set_array h arr s"

fun run_setters :: "setter_call list \<Rightarrow> 'a object_state_scheme \<Rightarrow> 'a object_state_scheme" where
  "run_setters [] s = s"
| "run_setters (c # cs) s = run_setters cs (run_setter c s)"

subsection \<open>Layer validation\<close>

text \<open>The flags of \<^verbatim>\<open>CoglPipelineFlushOptions\<close> (cogl-pipeline-private.h is not among
  the sources): the \<^verbatim>\<open>unsigned long\<close> bit set is a set of flags, \<^verbatim>\<open>|=\<close> is
  insertion and the test \<^verbatim>\<open>if (flags)\<close> is non-emptiness. This file writes no other
  field of the options.\<close>

datatype CoglPipelineFlushFlag =
    COGL_PIPELINE_FLUSH_FALLBACK_MASK
  | COGL_PIPELINE_FLUSH_DISABLE_MASK
  | COGL_PIPELINE_FLUSH_LAYER0_OVERRIDE
  | COGL_PIPELINE_FLUSH_SKIP_GL_COLOR

record CoglPipelineFlushOptions =
  flags :: "CoglPipelineFlushFlag set"

record ValidateLayerState =
  unit :: int
  options :: CoglPipelineFlushOptions
  fallback_layers :: guint32

text \<open>\<^verbatim>\<open>validate_layer_cb\<close>. The pipeline is seen through
  \<^verbatim>\<open>_cogl_pipeline_get_layer_texture\<close>, here the function \<open>get_layer_texture\<close> from a
  layer index to the layer's texture (\<open>None\<close>: \<^verbatim>\<open>COGL_INVALID_HANDLE\<close>);
  \<open>can_hardware_repeat\<close> is the answer of \<^verbatim>\<open>_cogl_texture_can_hardware_repeat\<close> at
  the moment it is asked, that is after \<^verbatim>\<open>_cogl_texture_ensure_non_quad_rendering\<close>
  and \<^verbatim>\<open>_cogl_pipeline_pre_paint_for_layer\<close> have run. The second component of
  the state is the list of messages printed. \<^verbatim>\<open>1 << state->unit\<close> is a shift of
  a 32-bit value, stored into the 32-bit mask. C defines it for a count from 0 to 31
  only (31 on a two's complement target); outside that range the model gives what
  the compiled code does on the x86 targets of the build, whose shift instruction
  takes the count modulo 32, so that position 32 sets bit 0.\<close>

definition validate_layer_cb ::
  "(int \<Rightarrow> 'tex option) \<Rightarrow> ('tex \<Rightarrow> bool) \<Rightarrow> int
     \<Rightarrow> ValidateLayerState \<times> diagnostic list \<Rightarrow> bool \<times> ValidateLayerState \<times> diagnostic list" where
  "validate_layer_cb get_layer_texture can_hardware_repeat layer_index sl =
     (case sl of (st, log) \<Rightarrow>
      (case get_layer_texture layer_index of
         None \<Rightarrow> (True, st\<lparr>unit := unit st + 1\<rparr>, log)
       | Some texture \<Rightarrow>
           if \<not> can_hardware_repeat texture then
             (True,
              st\<lparr>fallback_layers := fallback_layers st OR push_bit (nat (unit st mod 32)) 1,
                 options := (options st)\<lparr>flags :=
                    insert COGL_PIPELINE_FLUSH_FALLBACK_MASK (flags (options st))\<rparr>,
                 unit := unit st + 1\<rparr>,
              log @ [Warning_disabling_layer layer_index])
           else (True, st\<lparr>unit := unit st + 1\<rparr>, log)))"

text \<open>Modelled from the spec: \<^verbatim>\<open>cogl_pipeline_foreach_layer\<close> (cogl-pipeline.c, not
  among the sources) calls the callback once per layer of the pipeline, in layer
  order, and stops when the callback does not return "continue". The pipeline's
  layers are the list of their indices.\<close>

fun cogl_pipeline_foreach_layer :: "int list \<Rightarrow> (int \<Rightarrow> 's \<Rightarrow> bool \<times> 's) \<Rightarrow> 's \<Rightarrow> 's" where
  "cogl_pipeline_foreach_layer [] cb st = st"
| "cogl_pipeline_foreach_layer (i # is) cb st =
     (case cb i st of (continue, st') \<Rightarrow>
        if continue then cogl_pipeline_foreach_layer is cb st' else st')"

text \<open>The state every draw entry point starts validation from.\<close>

definition initial_validate_state :: ValidateLayerState where
  "initial_validate_state = \<lparr>unit = 0, options = \<lparr>flags = {}\<rparr>, fallback_layers = 0\<rparr>"

subsection \<open>The graphics state\<close>

text \<open>\<^verbatim>\<open>CoglVerticesMode\<close>, with the \<^verbatim>\<open>GL_QUADS\<close> the journal passes in its place.\<close>

datatype CoglVerticesMode =
    COGL_VERTICES_MODE_POINTS
  | COGL_VERTICES_MODE_LINE_STRIP
  | COGL_VERTICES_MODE_LINE_LOOP
  | COGL_VERTICES_MODE_LINES
  | COGL_VERTICES_MODE_TRIANGLE_STRIP
  | COGL_VERTICES_MODE_TRIANGLE_FAN
  | COGL_VERTICES_MODE_TRIANGLES
  | GL_QUADS

datatype CoglIndicesType =
    COGL_INDICES_TYPE_UNSIGNED_BYTE
  | COGL_INDICES_TYPE_UNSIGNED_SHORT
  | COGL_INDICES_TYPE_UNSIGNED_INT

datatype GLenum_index_type = GL_UNSIGNED_BYTE | GL_UNSIGNED_SHORT | GL_UNSIGNED_INT

datatype GLenum_client_state = GL_NORMAL_ARRAY | GL_TEXTURE_COORD_ARRAY

datatype CoglBufferBindTarget =
    COGL_BUFFER_BIND_TARGET_VERTEX_ARRAY
  | COGL_BUFFER_BIND_TARGET_INDEX_ARRAY

text \<open>The bits of \<^verbatim>\<open>enable_flags\<close>, as a set of flags.\<close>

datatype CoglEnableFlag =
    COGL_ENABLE_VERTEX_ARRAY
  | COGL_ENABLE_COLOR_ARRAY
  | COGL_ENABLE_BACKFACE_CULLING

datatype CoglPipelineBlendEnable =
    COGL_PIPELINE_BLEND_ENABLE_ENABLED
  | COGL_PIPELINE_BLEND_ENABLE_DISABLED
  | COGL_PIPELINE_BLEND_ENABLE_AUTOMATIC

text \<open>Modelled from the spec: a \<^verbatim>\<open>CoglIndices\<close> (cogl-indices.c is not among the
  sources) is what its accessors \<^verbatim>\<open>cogl_indices_get_array\<close>,
  \<^verbatim>\<open>cogl_indices_get_offset\<close> and \<^verbatim>\<open>cogl_indices_get_type\<close> return.\<close>

record CoglIndices =
  index_array :: nat
  index_offset :: gsize
  index_type :: CoglIndicesType

text \<open>Modelled from the spec: the pipeline collaborator (cogl-pipeline.c is not among
  the sources). The spec lists its interface: \<open>copy\<close>, \<open>apply_overrides\<close>,
  \<open>get_real_blend_enabled\<close>, \<open>set_blend_enabled\<close>, and describes a pipeline as
  a bundle of shading, texturing and blend configuration of which a structural copy
  can be derived. A pipeline is its reference count, whether real blending is on,
  the overrides and the legacy state applied to it, and its colour.\<close>

record CoglPipeline =
  pipeline_ref_count :: nat
  real_blend_enable :: bool
  overrides :: "CoglPipelineFlushOptions list"
  legacy_state :: bool
  color4ub :: "8 word \<times> 8 word \<times> 8 word \<times> 8 word"

text \<open>The calls the file makes into GL (\<^verbatim>\<open>GE (...)\<close>) and into the buffer,
  pipeline and context collaborators, with their arguments.\<close>

datatype call =
    cogl_buffer_bind nat CoglBufferBindTarget
  | cogl_buffer_unbind nat
  | cogl_buffer_map nat
  | cogl_buffer_unmap nat
  | glColorPointer int CoglVertexAttributeType gsize pointer
  | glEnableClientState GLenum_client_state
  | glDisableClientState GLenum_client_state
  | glNormalPointer CoglVertexAttributeType gsize pointer
  | glClientActiveTexture guint32
  | glTexCoordPointer int CoglVertexAttributeType gsize pointer
  | glVertexPointer int CoglVertexAttributeType gsize pointer
  | glEnableVertexAttribArray GLuint
  | glVertexAttribPointer GLuint int CoglVertexAttributeType bool gsize pointer
  | glDisableVertexAttribArray GLuint
  | glDrawArrays CoglVerticesMode int int
  | glDrawElements CoglVerticesMode int GLenum_index_type pointer
  | cogl_disable_other_texcoord_arrays "guint32 set"
  | cogl_pipeline_flush_gl_state nat bool
  | cogl_enable "CoglEnableFlag set"
  | cogl_flush_face_winding

text \<open>The whole state: the objects, and what the draw path reads and writes. The
  source stack holds pipeline handles, \<^verbatim>\<open>cogl_get_source\<close> returning its top; a
  pipeline handle is an index into \<open>pipelines\<close>. \<open>temp_bitmask\<close> is the set of
  the bits set in \<^verbatim>\<open>ctx->temp_bitmask\<close>. \<open>debug_wireframe\<close> is the
  \<^verbatim>\<open>COGL_DEBUG_WIREFRAME\<close> bit of \<^verbatim>\<open>cogl_debug_flags\<close>, \<open>wire_pipeline\<close> the static
  of \<^verbatim>\<open>draw_wireframe\<close>. \<open>memory\<close> is the address space by byte;
  \<open>bind_address\<close> and \<open>map_address\<close> are what \<^verbatim>\<open>_cogl_buffer_bind\<close> and
  \<^verbatim>\<open>cogl_buffer_map\<close> (cogl-buffer.c, not among the sources) return for a buffer
  (0 is \<^verbatim>\<open>NULL\<close>).\<close>

record cogl_state = object_state +
  source_stack :: "nat list"
  pipelines :: "CoglPipeline list"
  legacy_state_set :: bool
  enable_backface_culling :: bool
  temp_bitmask :: "guint32 set"
  calls :: "call list"
  debug_wireframe :: bool
  wire_pipeline :: "nat option"
  memory :: "pointer \<Rightarrow> 8 word"
  bind_address :: "nat \<Rightarrow> pointer"
  map_address :: "nat \<Rightarrow> pointer"

definition emit :: "call list \<Rightarrow> cogl_state \<Rightarrow> cogl_state" where
  "emit cs s = s\<lparr>calls := calls s @ cs\<rparr>"

definition GL_TEXTURE0 :: guint32 where
  "GL_TEXTURE0 = 0x84C0"

subsection \<open>Pipelines and the source stack\<close>

text \<open>Modelled from the spec: \<^verbatim>\<open>cogl_get_source\<close> (the spec's
  \<open>current_source_pipeline\<close>; cogl.c is not among the sources) returns the top of the
  source stack; \<open>None\<close> is the \<^verbatim>\<open>NULL\<close> of an empty stack.\<close>

definition cogl_get_source :: "cogl_state \<Rightarrow> nat option" where
  "cogl_get_source s = (case source_stack s of [] \<Rightarrow> None | p # _ \<Rightarrow> Some p)"

text \<open>Modelled from the spec: \<^verbatim>\<open>cogl_push_source\<close> (the spec's \<open>push_source\<close>)
  puts a pipeline on the source stack.\<close>

definition cogl_push_source :: "nat \<Rightarrow> cogl_state \<Rightarrow> cogl_state" where
  "cogl_push_source p s = s\<lparr>source_stack := p # source_stack s\<rparr>"

text \<open>Modelled from the spec: \<^verbatim>\<open>cogl_pop_source\<close> (the spec's \<open>pop_source\<close>)
  takes the top off the source stack.\<close>

definition cogl_pop_source :: "cogl_state \<Rightarrow> cogl_state" where
  "cogl_pop_source s = s\<lparr>source_stack := tl (source_stack s)\<rparr>"

text \<open>The pipeline operations the file calls (all of cogl-pipeline.c, which is not
  among the sources) change the one pipeline they are given: \<open>update_pipeline\<close>
  applies a change to the pipeline behind a handle. Every handle the file passes to
  them is the handle of a pipeline: \<^verbatim>\<open>enable_gl_state\<close> below checks its source, and
  the others come from \<^verbatim>\<open>cogl_pipeline_new\<close> and \<^verbatim>\<open>cogl_pipeline_copy\<close>.\<close>

definition update_pipeline :: "nat \<Rightarrow> (CoglPipeline \<Rightarrow> CoglPipeline) \<Rightarrow> cogl_state \<Rightarrow> cogl_state" where
  "update_pipeline p f s = s\<lparr>pipelines := (pipelines s)[p := f (pipelines s ! p)]\<rparr>"

text \<open>Modelled from the spec: \<^verbatim>\<open>cogl_pipeline_new\<close> makes a new pipeline, with one
  reference, opaque white and without blending.\<close>

definition cogl_pipeline_new :: "cogl_state \<Rightarrow> nat \<times> cogl_state" where
  "cogl_pipeline_new s =
     (length (pipelines s),
      s\<lparr>pipelines := pipelines s @
          [\<lparr>pipeline_ref_count = 1, real_blend_enable = False, overrides = [],
            legacy_state = False, color4ub = (255, 255, 255, 255)\<rparr>]\<rparr>)"

text \<open>Modelled from the spec: \<^verbatim>\<open>cogl_pipeline_copy\<close> (the spec's \<open>copy\<close>) makes a
  new pipeline, with one reference, that has the configuration of the original; the
  original is not changed.\<close>

definition cogl_pipeline_copy :: "nat \<Rightarrow> cogl_state \<Rightarrow> nat \<times> cogl_state" where
  "cogl_pipeline_copy p s =
     (length (pipelines s),
      s\<lparr>pipelines := pipelines s @ [(pipelines s ! p)\<lparr>pipeline_ref_count := 1\<rparr>]\<rparr>)"

text \<open>Modelled from the spec: \<^verbatim>\<open>_cogl_pipeline_get_real_blend_enabled\<close> (the spec's
  \<open>get_real_blend_enabled\<close>) reads whether real blending is on.\<close>

definition cogl_pipeline_get_real_blend_enabled :: "nat \<Rightarrow> cogl_state \<Rightarrow> bool" where
  "cogl_pipeline_get_real_blend_enabled p s = real_blend_enable (pipelines s ! p)"

text \<open>Modelled from the spec: \<^verbatim>\<open>_cogl_pipeline_set_blend_enabled\<close> (the spec's
  \<open>set_blend_enabled\<close>): enabling turns real blending on, disabling turns it off,
  and the automatic mode leaves the pipeline's own decision.\<close>

definition cogl_pipeline_set_blend_enabled ::
  "nat \<Rightarrow> CoglPipelineBlendEnable \<Rightarrow> cogl_state \<Rightarrow> cogl_state" where
  "cogl_pipeline_set_blend_enabled p e s =
     update_pipeline p (\<lambda>q. q\<lparr>real_blend_enable :=
        (case e of COGL_PIPELINE_BLEND_ENABLE_ENABLED \<Rightarrow> True
         | COGL_PIPELINE_BLEND_ENABLE_DISABLED \<Rightarrow> False
         | COGL_PIPELINE_BLEND_ENABLE_AUTOMATIC \<Rightarrow> real_blend_enable q)\<rparr>) s"

text \<open>Modelled from the spec: \<^verbatim>\<open>_cogl_pipeline_apply_overrides\<close> (the spec's
  \<open>apply_overrides\<close>) applies the flush options to the pipeline's layers; the
  pipeline records the options applied to it.\<close>

definition cogl_pipeline_apply_overrides ::
  "nat \<Rightarrow> CoglPipelineFlushOptions \<Rightarrow> cogl_state \<Rightarrow> cogl_state" where
  "cogl_pipeline_apply_overrides p opts s =
     update_pipeline p (\<lambda>q. q\<lparr>overrides := overrides q @ [opts]\<rparr>) s"

text \<open>Modelled from the spec: \<^verbatim>\<open>_cogl_pipeline_apply_legacy_state\<close> applies the
  deprecated per-context state to the pipeline; the pipeline records that it was
  applied.\<close>

definition cogl_pipeline_apply_legacy_state :: "nat \<Rightarrow> cogl_state \<Rightarrow> cogl_state" where
  "cogl_pipeline_apply_legacy_state p s = update_pipeline p (\<lambda>q. q\<lparr>legacy_state := True\<rparr>) s"

text \<open>Modelled from the spec: \<^verbatim>\<open>cogl_pipeline_set_color4ub\<close> sets the pipeline's
  colour.\<close>

definition cogl_pipeline_set_color4ub ::
  "nat \<Rightarrow> 8 word \<Rightarrow> 8 word \<Rightarrow> 8 word \<Rightarrow> 8 word \<Rightarrow> cogl_state \<Rightarrow> cogl_state" where
  "cogl_pipeline_set_color4ub p r g b a s =
     update_pipeline p (\<lambda>q. q\<lparr>color4ub := (r, g, b, a)\<rparr>) s"

text \<open>Modelled from the spec: \<^verbatim>\<open>cogl_object_unref\<close> on a pipeline takes one from
  its reference count.\<close>

definition cogl_object_unref_pipeline :: "nat \<Rightarrow> cogl_state \<Rightarrow> cogl_state" where
  "cogl_object_unref_pipeline p s =
     update_pipeline p (\<lambda>q. q\<lparr>pipeline_ref_count := pipeline_ref_count q - 1\<rparr>) s"

text \<open>Modelled from the spec: \<^verbatim>\<open>cogl_vertex_array_new\<close> (cogl-vertex-array.c, not among
  the sources) makes a new vertex array of the given size with one reference. The
  file never reads the contents of an array it made.\<close>

definition cogl_vertex_array_new :: "gsize \<Rightarrow> cogl_state \<Rightarrow> nat \<times> cogl_state" where
  "cogl_vertex_array_new size_in_bytes s =
     (next_handle s,
      s\<lparr>array_ref_count := (array_ref_count s)(next_handle s := 1),
        next_handle := Suc (next_handle s)\<rparr>)"

subsection \<open>enable_gl_state and disable_gl_state\<close>

text \<open>The local variables of \<^verbatim>\<open>enable_gl_state\<close> that the loop over the attributes
  changes; \<open>copy = None\<close> is the \<^verbatim>\<open>NULL\<close> it starts as.\<close>

record enable_locals =
  generic_index :: GLuint
  enable_flags :: "CoglEnableFlag set"
  skip_gl_color :: bool
  source :: nat
  copy :: "nat option"

text \<open>One pass of the loop body, for one attribute of the \<^verbatim>\<open>NULL\<close>-terminated
  array (which is the list of the attributes it points to). The \<^verbatim>\<open>default\<close>
  branch of the switch has no counterpart: \<open>name_id\<close> only ever holds one of the
  five values the constructor stores.\<close>

definition enable_attribute ::
  "CoglVertexAttribute \<Rightarrow> enable_locals \<times> cogl_state \<Rightarrow> enable_locals \<times> cogl_state" where
  "enable_attribute attribute ls =
     (case ls of (l, s) \<Rightarrow>
      let buffer = array attribute;
          base = bind_address s buffer;
          s1 = emit [cogl_buffer_bind buffer COGL_BUFFER_BIND_TARGET_VERTEX_ARRAY] s;
          (l2, s2) =
            (case name_id attribute of
               COGL_VERTEX_ATTRIBUTE_NAME_ID_COLOR_ARRAY \<Rightarrow>
                 (let l1 = l\<lparr>enable_flags := insert COGL_ENABLE_COLOR_ARRAY (enable_flags l)\<rparr>;
                      t = emit [glColorPointer (n_components attribute) (type attribute)
                                  (stride attribute) (base + offset attribute)] s1
                  in if \<not> cogl_pipeline_get_real_blend_enabled (source l1) t then
                       (case cogl_pipeline_copy (source l1) t of (c, t1) \<Rightarrow>
                          (l1\<lparr>copy := Some c, source := c, skip_gl_color := True\<rparr>,
                           cogl_pipeline_set_blend_enabled c COGL_PIPELINE_BLEND_ENABLE_ENABLED t1))
                     else (l1\<lparr>skip_gl_color := True\<rparr>, t))
             | COGL_VERTEX_ATTRIBUTE_NAME_ID_NORMAL_ARRAY \<Rightarrow>
                 (l, emit [glEnableClientState GL_NORMAL_ARRAY,
                           glNormalPointer (type attribute) (stride attribute)
                             (base + offset attribute)] s1)
             | COGL_VERTEX_ATTRIBUTE_NAME_ID_TEXTURE_COORD_ARRAY \<Rightarrow>
                 (let t = emit [glClientActiveTexture (GL_TEXTURE0 + texture_unit attribute),
                                glEnableClientState GL_TEXTURE_COORD_ARRAY,
                                glTexCoordPointer (n_components attribute) (type attribute)
                                  (stride attribute) (base + offset attribute)] s1
                  in (l, t\<lparr>temp_bitmask := insert (texture_unit attribute) (temp_bitmask t)\<rparr>))
             | COGL_VERTEX_ATTRIBUTE_NAME_ID_POSITION_ARRAY \<Rightarrow>
                 (l\<lparr>enable_flags := insert COGL_ENABLE_VERTEX_ARRAY (enable_flags l)\<rparr>,
                  emit [glVertexPointer (n_components attribute) (type attribute)
                          (stride attribute) (base + offset attribute)] s1)
             | COGL_VERTEX_ATTRIBUTE_NAME_ID_CUSTOM_ARRAY \<Rightarrow>
                 (let t = emit [glEnableVertexAttribArray (generic_index l)] s1;
                      l1 = l\<lparr>generic_index := generic_index l + 1\<rparr>
                  in (l1, emit [glVertexAttribPointer (generic_index l1)
                                  (n_components attribute) (type attribute)
                                  (normalized attribute) (stride attribute)
                                  (base + offset attribute)] t)))
      in (l2, emit [cogl_buffer_unbind buffer] s2))"

fun enable_attributes ::
  "CoglVertexAttribute list \<Rightarrow> enable_locals \<times> cogl_state \<Rightarrow> enable_locals \<times> cogl_state" where
  "enable_attributes [] ls = ls"
| "enable_attributes (a # as) ls = enable_attributes as (enable_attribute a ls)"

text \<open>\<^verbatim>\<open>enable_gl_state\<close>. \<open>None\<close>: there is no source pipeline, or its handle is
  not that of a pipeline (the source goes on to dereference it). Otherwise the
  result is the returned \<^verbatim>\<open>source\<close> and the state.\<close>

definition enable_gl_state ::
  "CoglVertexAttribute list \<Rightarrow> ValidateLayerState \<Rightarrow> cogl_state \<Rightarrow> (nat \<times> cogl_state) option" where
  "enable_gl_state attrs state s =
     (case cogl_get_source s of
        None \<Rightarrow> None
      | Some src \<Rightarrow>
          if \<not> src < length (pipelines s) then None
          else
            (let l0 = \<lparr>generic_index = 0, enable_flags = {}, skip_gl_color = False,
                       source = src, copy = None\<rparr>;
                 s0 = s\<lparr>temp_bitmask := {}\<rparr>;
                 (l1, s1) = enable_attributes attrs (l0, s0);
                 s2 = emit [cogl_disable_other_texcoord_arrays (temp_bitmask s1)] s1;
                 (l3, s3) =
                   (if flags (options state) \<noteq> {} then
                      (let (l, t) =
                             (if copy l1 = None then
                                (case cogl_pipeline_copy (source l1) s2 of (c, t) \<Rightarrow>
                                   (l1\<lparr>copy := Some c, source := c\<rparr>, t))
                              else (l1, s2))
                       in (l, cogl_pipeline_apply_overrides (source l) (options state) t))
                    else (l1, s2));
                 (l4, s4) =
                   (if legacy_state_set s3 then
                      (let (l, t) =
                             (if copy l3 = None then
                                (case cogl_pipeline_copy (source l3) s3 of (c, t) \<Rightarrow>
                                   (l3\<lparr>copy := Some c, source := c\<rparr>, t))
                              else (l3, s3))
                       in (l, cogl_pipeline_apply_legacy_state (source l) t))
                    else (l3, s3));
                 s5 = emit [cogl_pipeline_flush_gl_state (source l4) (skip_gl_color l4)] s4;
                 fl = (if enable_backface_culling s5
                       then insert COGL_ENABLE_BACKFACE_CULLING (enable_flags l4)
                       else enable_flags l4);
                 s6 = emit [cogl_enable fl, cogl_flush_face_winding] s5
             in Some (source l4, s6)))"

text \<open>\<^verbatim>\<open>disable_gl_state\<close>: the body of its loop, on the running
  \<^verbatim>\<open>generic_index\<close> and the state, then the function.\<close>

definition disable_attribute ::
  "CoglVertexAttribute \<Rightarrow> GLuint \<times> cogl_state \<Rightarrow> GLuint \<times> cogl_state" where
  "disable_attribute attribute gs =
     (case gs of (index, s) \<Rightarrow>
      (case name_id attribute of
         COGL_VERTEX_ATTRIBUTE_NAME_ID_COLOR_ARRAY \<Rightarrow> (index, s)
       | COGL_VERTEX_ATTRIBUTE_NAME_ID_NORMAL_ARRAY \<Rightarrow>
           (index, emit [glDisableClientState GL_NORMAL_ARRAY] s)
       | COGL_VERTEX_ATTRIBUTE_NAME_ID_TEXTURE_COORD_ARRAY \<Rightarrow> (index, s)
       | COGL_VERTEX_ATTRIBUTE_NAME_ID_POSITION_ARRAY \<Rightarrow> (index, s)
       | COGL_VERTEX_ATTRIBUTE_NAME_ID_CUSTOM_ARRAY \<Rightarrow>
           (index + 1, emit [glDisableVertexAttribArray index] s)))"

fun disable_attributes ::
  "CoglVertexAttribute list \<Rightarrow> GLuint \<times> cogl_state \<Rightarrow> GLuint \<times> cogl_state" where
  "disable_attributes [] gs = gs"
| "disable_attributes (a # as) gs = disable_attributes as (disable_attribute a gs)"

definition disable_gl_state :: "CoglVertexAttribute list \<Rightarrow> nat \<Rightarrow> cogl_state \<Rightarrow> cogl_state" where
  "disable_gl_state attrs src s =
     (let s1 = (if Some src \<noteq> cogl_get_source s then cogl_object_unref_pipeline src s else s)
      in snd (disable_attributes attrs (0, s1)))"

subsection \<open>Wireframe reconstruction (debug builds)\<close>

text \<open>Reads from memory, little-endian: the \<^verbatim>\<open>guint16\<close> and the \<^verbatim>\<open>guint32\<close> (or
  the \<^verbatim>\<open>float\<close>) at an address.\<close>

definition load_u16 :: "(pointer \<Rightarrow> 8 word) \<Rightarrow> pointer \<Rightarrow> 16 word" where
  "load_u16 m p = word_cat (m (p + 1)) (m p)"

definition load_u32 :: "(pointer \<Rightarrow> 8 word) \<Rightarrow> pointer \<Rightarrow> 32 word" where
  "load_u32 m p = word_cat (load_u16 m (p + 2)) (load_u16 m p)"

text \<open>\<^verbatim>\<open>get_index\<close>: \<open>indices = 0\<close> is the \<^verbatim>\<open>NULL\<close> of a draw without indices. The
  value read is returned as an \<^verbatim>\<open>int\<close>: a \<^verbatim>\<open>guint32\<close> is reinterpreted as signed.\<close>

definition get_index :: "(pointer \<Rightarrow> 8 word) \<Rightarrow> pointer \<Rightarrow> CoglIndicesType \<Rightarrow> int \<Rightarrow> int" where
  "get_index m indices ty i =
     (if indices = 0 then i
      else (case ty of
              COGL_INDICES_TYPE_UNSIGNED_BYTE \<Rightarrow> uint (m (indices + of_int i))
            | COGL_INDICES_TYPE_UNSIGNED_SHORT \<Rightarrow> uint (load_u16 m (indices + 2 * of_int i))
            | COGL_INDICES_TYPE_UNSIGNED_INT \<Rightarrow> sint (load_u32 m (indices + 4 * of_int i))))"

text \<open>The array \<^verbatim>\<open>out\<close> that \<^verbatim>\<open>g_new (CoglP3Vertex, n_lines * 2)\<close> returns: the
  number of vertices asked for, and the floats written so far, by float position
  from the start of the array. A write past the allocation is a write at its
  position all the same.\<close>

record wire_lines =
  allocated :: int
  floats :: "nat \<Rightarrow> float option"

fun store_floats :: "(nat \<Rightarrow> float option) \<Rightarrow> nat \<Rightarrow> float list \<Rightarrow> (nat \<Rightarrow> float option)" where
  "store_floats f pos [] = f"
| "store_floats f pos (x # xs) = store_floats (f(pos \<mapsto> x)) (Suc pos) xs"

text \<open>What the two loops of \<^verbatim>\<open>add_line\<close> write for one end of the line: the
  first \<open>n_components\<close> floats at \<open>v\<close>, then zeros while fewer than 3 were
  written.\<close>

definition line_vertex :: "(pointer \<Rightarrow> 8 word) \<Rightarrow> pointer \<Rightarrow> int \<Rightarrow> float list" where
  "line_vertex m v n =
     map (\<lambda>j. load_u32 m (v + 4 * of_nat j)) [0..<nat n] @ replicate (3 - nat n) 0"

text \<open>\<^verbatim>\<open>add_line\<close>, on the pair of \<^verbatim>\<open>lines\<close> and \<^verbatim>\<open>*n_line_vertices\<close>. The output
  pointer starts at \<^verbatim>\<open>lines[*n_line_vertices]\<close>, three floats per vertex.\<close>

definition add_line ::
  "(pointer \<Rightarrow> 8 word) \<Rightarrow> pointer \<Rightarrow> pointer \<Rightarrow> CoglIndicesType \<Rightarrow> CoglVertexAttribute
     \<Rightarrow> int \<Rightarrow> int \<Rightarrow> wire_lines \<times> int \<Rightarrow> wire_lines \<times> int" where
  "add_line m vertices indices indices_type attribute start finish ln =
     (case ln of (lines, n_line_vertices) \<Rightarrow>
      let start_index = get_index m indices indices_type start;
          end_index = get_index m indices indices_type finish;
          v0 = vertices + of_int start_index * stride attribute;
          v1 = vertices + of_int end_index * stride attribute
      in (lines\<lparr>floats := store_floats (floats lines) (3 * nat n_line_vertices)
                   (line_vertex m v0 (n_components attribute)
                    @ line_vertex m v1 (n_components attribute))\<rparr>,
          n_line_vertices + 2))"

text \<open>The four loops of \<^verbatim>\<open>get_wire_lines\<close>, over the loop variable \<open>i\<close>;
  \<open>line a b\<close> is \<^verbatim>\<open>add_line\<close> from vertex \<open>a\<close> to vertex \<open>b\<close> with the other
  arguments fixed.\<close>

function wire_triangles :: "(int \<Rightarrow> int \<Rightarrow> 'l \<Rightarrow> 'l) \<Rightarrow> int \<Rightarrow> int \<Rightarrow> 'l \<Rightarrow> 'l" where
  "wire_triangles line i n acc =
     (if i < n
      then wire_triangles line (i + 3) n
             (line (i + 2) i (line (i + 1) (i + 2) (line i (i + 1) acc)))
      else acc)"
  by pat_completeness auto
termination
  by (relation "measure (\<lambda>(line, i, n, acc). nat (n - i))") auto

function wire_triangle_fan :: "(int \<Rightarrow> int \<Rightarrow> 'l \<Rightarrow> 'l) \<Rightarrow> int \<Rightarrow> int \<Rightarrow> 'l \<Rightarrow> 'l" where
  "wire_triangle_fan line i n acc =
     (if i < n
      then wire_triangle_fan line (i + 1) n (line 0 i (line (i - 1) i acc))
      else acc)"
  by pat_completeness auto
termination
  by (relation "measure (\<lambda>(line, i, n, acc). nat (n - i))") auto

function wire_triangle_strip :: "(int \<Rightarrow> int \<Rightarrow> 'l \<Rightarrow> 'l) \<Rightarrow> int \<Rightarrow> int \<Rightarrow> 'l \<Rightarrow> 'l" where
  "wire_triangle_strip line i n acc =
     (if i < n
      then wire_triangle_strip line (i + 1) n (line (i - 2) i (line (i - 1) i acc))
      else acc)"
  by pat_completeness auto
termination
  by (relation "measure (\<lambda>(line, i, n, acc). nat (n - i))") auto

function wire_quads :: "(int \<Rightarrow> int \<Rightarrow> 'l \<Rightarrow> 'l) \<Rightarrow> int \<Rightarrow> int \<Rightarrow> 'l \<Rightarrow> 'l" where
  "wire_quads line i n acc =
     (if i < n
      then wire_quads line (i + 4) n
             (line (i + 3) i (line (i + 2) (i + 3) (line (i + 1) (i + 2) (line i (i + 1) acc))))
      else acc)"
  by pat_completeness auto
termination
  by (relation "measure (\<lambda>(line, i, n, acc). nat (n - i))") auto

text \<open>The loop equations are unconditional; they are unfolded by hand.\<close>

declare wire_triangles.simps [simp del] wire_triangle_fan.simps [simp del]
  wire_triangle_strip.simps [simp del] wire_quads.simps [simp del]

text \<open>\<^verbatim>\<open>get_wire_lines\<close>: the result is the returned pointer \<^verbatim>\<open>out\<close> (\<open>None\<close>
  where the source returns it without having assigned it), \<^verbatim>\<open>*n_vertices_out\<close>, and
  the state. \<^verbatim>\<open>n_vertices_in % 3 == 0\<close> is a divisibility test, the same for C's
  remainder and for \<open>mod\<close>.\<close>

definition get_wire_lines ::
  "CoglVertexAttribute \<Rightarrow> CoglVerticesMode \<Rightarrow> int \<Rightarrow> CoglIndices option \<Rightarrow> cogl_state
     \<Rightarrow> (wire_lines option \<times> int) \<times> cogl_state" where
  "get_wire_lines attribute mode n_vertices_in indices_arg s =
     (let vertex_array = array attribute;
          vertices = map_address s vertex_array;
          s1 = emit [cogl_buffer_map vertex_array] s;
          (indices, indices_type, s2) =
            (case indices_arg of
               Some ix \<Rightarrow>
                 (map_address s1 (index_array ix), index_type ix,
                  emit [cogl_buffer_map (index_array ix)] s1)
             | None \<Rightarrow> (0, COGL_INDICES_TYPE_UNSIGNED_BYTE, s1));
          line = add_line (memory s2) vertices indices indices_type attribute;
          new_lines = (\<lambda>n_lines. (\<lparr>allocated = n_lines * 2, floats = (\<lambda>_. None)\<rparr>, 0));
          (out, n_vertices_out) =
            (if mode = COGL_VERTICES_MODE_TRIANGLES \<and> n_vertices_in mod 3 = 0 then
               (case wire_triangles line 0 n_vertices_in (new_lines n_vertices_in) of
                  (lines, n) \<Rightarrow> (Some lines, n))
             else if mode = COGL_VERTICES_MODE_TRIANGLE_FAN \<and> n_vertices_in \<ge> 3 then
               (case wire_triangle_fan line 3 n_vertices_in
                       (line 0 2 (line 1 2 (line 0 1 (new_lines (2 * n_vertices_in - 3))))) of
                  (lines, n) \<Rightarrow> (Some lines, n))
             else if mode = COGL_VERTICES_MODE_TRIANGLE_STRIP \<and> n_vertices_in \<ge> 3 then
               (case wire_triangle_strip line 3 n_vertices_in
                       (line 0 2 (line 1 2 (line 0 1 (new_lines (2 * n_vertices_in - 3))))) of
                  (lines, n) \<Rightarrow> (Some lines, n))
             else if mode = GL_QUADS \<and> n_vertices_in mod 4 = 0 then
               (case wire_quads line 0 n_vertices_in (new_lines n_vertices_in) of
                  (lines, n) \<Rightarrow> (Some lines, n))
             else (None, 0));
          s3 = (if vertices \<noteq> 0 then emit [cogl_buffer_unmap vertex_array] s2 else s2);
          s4 = (case indices_arg of
                  Some ix \<Rightarrow> if indices \<noteq> 0 then emit [cogl_buffer_unmap (index_array ix)] s3
                             else s3
                | None \<Rightarrow> s3)
      in ((out, n_vertices_out), s4))"

subsection \<open>Drawing\<close>

text \<open>The statements of \<^verbatim>\<open>_cogl_draw_vertex_attributes_array_real\<close> before its debug
  block: flush the state, draw, tear the state down. \<open>None\<close> is the \<open>None\<close> of
  \<^verbatim>\<open>enable_gl_state\<close>.\<close>

definition draw_arrays_flushed ::
  "CoglVerticesMode \<Rightarrow> int \<Rightarrow> int \<Rightarrow> CoglVertexAttribute list \<Rightarrow> ValidateLayerState
     \<Rightarrow> cogl_state \<Rightarrow> cogl_state option" where
  "draw_arrays_flushed mode first_vertex n_vertices attrs state s =
     (case enable_gl_state attrs state s of
        None \<Rightarrow> None
      | Some (src, s1) \<Rightarrow>
          Some (disable_gl_state attrs src
                  (emit [glDrawArrays mode first_vertex n_vertices] s1)))"

text \<open>\<^verbatim>\<open>draw_wireframe\<close>. \<^verbatim>\<open>sizeof (CoglP3Vertex)\<close> is 12. The nested call of
  \<^verbatim>\<open>_cogl_draw_vertex_attributes_array\<close> runs with \<^verbatim>\<open>COGL_DEBUG_WIREFRAME\<close> cleared,
  so the debug block of the nested draw is skipped: the nested draw is
  \<open>draw_arrays_flushed\<close> from the initial validation state.\<close>

definition draw_wireframe ::
  "CoglVerticesMode \<Rightarrow> int \<Rightarrow> int \<Rightarrow> CoglVertexAttribute list \<Rightarrow> CoglIndices option
     \<Rightarrow> cogl_state \<Rightarrow> cogl_state option" where
  "draw_wireframe mode first_vertex n_vertices attrs indices s =
     (case find (\<lambda>a. name a = ''cogl_position_in'') attrs of
        None \<Rightarrow> Some s
      | Some position \<Rightarrow>
          (case get_wire_lines position mode n_vertices indices s of
             ((lines, n_line_vertices), s1) \<Rightarrow>
          (case cogl_vertex_array_new (12 * of_int n_line_vertices) s1 of
             (arr, s2) \<Rightarrow>
          (case cogl_vertex_attribute_new arr ''cogl_position_in'' 12 0 3
                  COGL_VERTEX_ATTRIBUTE_TYPE_FLOAT s2 of
             (wire, s3) \<Rightarrow>
           let s4 = cogl_object_unref_array arr s3;
               (wp, s5) =
                 (case wire_pipeline s4 of
                    Some p \<Rightarrow> (p, s4)
                  | None \<Rightarrow>
                      (case cogl_pipeline_new s4 of (p, t) \<Rightarrow>
                         (p, (cogl_pipeline_set_color4ub p 0 255 0 255 t)
                               \<lparr>wire_pipeline := Some p\<rparr>)));
               s6 = cogl_push_source wp s5;
               s7 = s6\<lparr>debug_wireframe := False\<rparr>;
               wire_attribute =
                 (case wire of
                    None \<Rightarrow> []
                  | Some h \<Rightarrow> (case attributes s7 h of None \<Rightarrow> [] | Some a \<Rightarrow> [a]))
           in (case draw_arrays_flushed COGL_VERTICES_MODE_LINES 0 n_line_vertices
                      wire_attribute initial_validate_state s7 of
                 None \<Rightarrow> None
               | Some s8 \<Rightarrow>
                   (let s9 = cogl_pop_source (s8\<lparr>debug_wireframe := True\<rparr>)
                    in Some (case wire of
                               None \<Rightarrow> s9
                             | Some h \<Rightarrow> cogl_object_unref_attribute h s9)))))))"

text \<open>\<^verbatim>\<open>_cogl_draw_vertex_attributes_array_real\<close> and the entry point
  \<^verbatim>\<open>_cogl_draw_vertex_attributes_array\<close> that the journal uses.\<close>

definition cogl_draw_vertex_attributes_array_real ::
  "CoglVerticesMode \<Rightarrow> int \<Rightarrow> int \<Rightarrow> CoglVertexAttribute list \<Rightarrow> ValidateLayerState
     \<Rightarrow> cogl_state \<Rightarrow> cogl_state option" where
  "cogl_draw_vertex_attributes_array_real mode first_vertex n_vertices attrs state s =
     (case draw_arrays_flushed mode first_vertex n_vertices attrs state s of
        None \<Rightarrow> None
      | Some s1 \<Rightarrow>
          if debug_wireframe s1
          then draw_wireframe mode first_vertex n_vertices attrs None s1
          else Some s1)"

definition cogl_draw_vertex_attributes_array_internal ::
  "CoglVerticesMode \<Rightarrow> int \<Rightarrow> int \<Rightarrow> CoglVertexAttribute list \<Rightarrow> cogl_state
     \<Rightarrow> cogl_state option" where
  "cogl_draw_vertex_attributes_array_internal mode first_vertex n_vertices attrs s =
     cogl_draw_vertex_attributes_array_real mode first_vertex n_vertices attrs
       initial_validate_state s"

definition sizeof_index_type :: "CoglIndicesType \<Rightarrow> gsize" where
  "sizeof_index_type ty =
     (case ty of
        COGL_INDICES_TYPE_UNSIGNED_BYTE \<Rightarrow> 1
      | COGL_INDICES_TYPE_UNSIGNED_SHORT \<Rightarrow> 2
      | COGL_INDICES_TYPE_UNSIGNED_INT \<Rightarrow> 4)"

text \<open>\<^verbatim>\<open>_cogl_draw_indexed_vertex_attributes_array_real\<close>. The last argument of
  \<^verbatim>\<open>glDrawElements\<close> is \<^verbatim>\<open>base + array_offset + index_size * first_vertex\<close>, computed
  in \<^verbatim>\<open>size_t\<close>: \<^verbatim>\<open>first_vertex\<close> is converted to it.\<close>

definition cogl_draw_indexed_vertex_attributes_array_real ::
  "CoglVerticesMode \<Rightarrow> int \<Rightarrow> int \<Rightarrow> CoglIndices \<Rightarrow> CoglVertexAttribute list
     \<Rightarrow> ValidateLayerState \<Rightarrow> cogl_state \<Rightarrow> cogl_state option" where
  "cogl_draw_indexed_vertex_attributes_array_real mode first_vertex n_vertices indices attrs
       state s =
     (case enable_gl_state attrs state s of
        None \<Rightarrow> None
      | Some (src, s1) \<Rightarrow>
          (let buffer = index_array indices;
               base = bind_address s1 buffer;
               s2 = emit [cogl_buffer_bind buffer COGL_BUFFER_BIND_TARGET_INDEX_ARRAY] s1;
               array_offset = index_offset indices;
               index_size = sizeof_index_type (index_type indices);
               indices_gl_type =
                 (case index_type indices of
                    COGL_INDICES_TYPE_UNSIGNED_BYTE \<Rightarrow> GL_UNSIGNED_BYTE
                  | COGL_INDICES_TYPE_UNSIGNED_SHORT \<Rightarrow> GL_UNSIGNED_SHORT
                  | COGL_INDICES_TYPE_UNSIGNED_INT \<Rightarrow> GL_UNSIGNED_INT);
               s3 = emit [glDrawElements mode n_vertices indices_gl_type
                            (base + array_offset + index_size * of_int first_vertex)] s2;
               s4 = emit [cogl_buffer_unbind buffer] s3;
               s5 = disable_gl_state attrs src s4
           in if debug_wireframe s5
              then draw_wireframe mode first_vertex n_vertices attrs (Some indices) s5
              else Some s5))"

definition cogl_draw_indexed_vertex_attributes_array_internal ::
  "CoglVerticesMode \<Rightarrow> int \<Rightarrow> int \<Rightarrow> CoglIndices \<Rightarrow> CoglVertexAttribute list \<Rightarrow> cogl_state
     \<Rightarrow> cogl_state option" where
  "cogl_draw_indexed_vertex_attributes_array_internal mode first_vertex n_vertices indices
       attrs s =
     cogl_draw_indexed_vertex_attributes_array_real mode first_vertex n_vertices indices attrs
       initial_validate_state s"

subsection \<open>Vocabulary of the properties\<close>

text \<open>A layer whose texture reports that it cannot be hardware-repeated (a layer
  without a texture is not one).\<close>

definition cannot_repeat :: "(int \<Rightarrow> 'tex option) \<Rightarrow> ('tex \<Rightarrow> bool) \<Rightarrow> int \<Rightarrow> bool" where
  "cannot_repeat get_layer_texture can_hardware_repeat i =
     (case get_layer_texture i of None \<Rightarrow> False | Some t \<Rightarrow> \<not> can_hardware_repeat t)"

text \<open>Concrete states for the examples: a process with one live vertex array
  (handle 0), and the same process after a three-component position attribute
  (handle 1) has been created on that array and pinned once.\<close>

definition example_objects :: object_state where
  "example_objects =
     \<lparr>array_ref_count = (\<lambda>_. 0)(0 := 1), buffer_immutable_ref = (\<lambda>_. 0),
      attributes = (\<lambda>_. None), next_handle = 1, seen = False, messages = []\<rparr>"

definition example_attribute :: CoglVertexAttribute where
  "example_attribute =
     \<lparr>ref_count = 1, array = 0, name = ''cogl_position_in'', stride = 12, offset = 0,
      n_components = 3, type = COGL_VERTEX_ATTRIBUTE_TYPE_FLOAT, normalized = False,
      name_id = COGL_VERTEX_ATTRIBUTE_NAME_ID_POSITION_ARRAY, texture_unit = 0,
      immutable_ref = 1\<rparr>"

definition example_pinned :: object_state where
  "example_pinned =
     \<lparr>array_ref_count = (\<lambda>_. 0)(0 := 2), buffer_immutable_ref = (\<lambda>_. 0)(0 := 1),
      attributes = (\<lambda>_. None)(1 \<mapsto> example_attribute), next_handle = 2, seen = False,
      messages = []\<rparr>"

text \<open>A pipeline of three layers for the examples: layer 0 has a texture that can
  be repeated in hardware, layer 1 a texture that cannot, layer 2 no texture. A
  texture is represented by the answer it gives.\<close>

definition example_layer_texture :: "int \<Rightarrow> bool option" where
  "example_layer_texture i = (if i = 0 then Some True else if i = 1 then Some False else None)"

text \<open>A pipeline in which the layer of index \<open>b\<close> alone has a texture, one that
  cannot be repeated in hardware; the other layers have none.\<close>

definition example_single_bad_layer :: "int \<Rightarrow> int \<Rightarrow> bool option" where
  "example_single_bad_layer b i = (if i = b then Some False else None)"

text \<open>The invariant of the loop of \<^verbatim>\<open>enable_gl_state\<close>, for a draw that started with
  source pipeline \<open>p\<close> and the pipelines \<open>P0\<close>: the pipelines that existed are
  untouched; while there is no copy the source is still \<open>p\<close> and no pipeline was
  made; once there is a copy it is the source, it is a pipeline made since, and
  its blending is on.\<close>

definition derived_from :: "nat \<Rightarrow> CoglPipeline list \<Rightarrow> enable_locals \<times> cogl_state \<Rightarrow> bool" where
  "derived_from p P0 ls =
     (case ls of (l, t) \<Rightarrow>
        take (length P0) (pipelines t) = P0 \<and> source l < length (pipelines t)
        \<and> (case copy l of
              None \<Rightarrow> source l = p \<and> pipelines t = P0
            | Some c \<Rightarrow> source l = c \<and> length P0 \<le> c \<and> real_blend_enable (pipelines t ! c)))"

definition blend_on :: "enable_locals \<times> cogl_state \<Rightarrow> bool" where
  "blend_on ls = (case ls of (l, t) \<Rightarrow> real_blend_enable (pipelines t ! source l))"

text \<open>More concrete values for the examples: a pipeline without blending, a state
  whose source stack holds that pipeline alone, a four-component colour attribute
  and a custom attribute, all on vertex array 0.\<close>

definition example_pipeline :: CoglPipeline where
  "example_pipeline =
     \<lparr>pipeline_ref_count = 1, real_blend_enable = False, overrides = [],
      legacy_state = False, color4ub = (255, 255, 255, 255)\<rparr>"

definition example_state :: cogl_state where
  "example_state =
     \<lparr>array_ref_count = (\<lambda>_. 0)(0 := 1), buffer_immutable_ref = (\<lambda>_. 0),
      attributes = (\<lambda>_. None), next_handle = 1, seen = False, messages = [],
      source_stack = [0], pipelines = [example_pipeline], legacy_state_set = False,
      enable_backface_culling = False, temp_bitmask = {}, calls = [],
      debug_wireframe = False, wire_pipeline = None, memory = (\<lambda>_. 0),
      bind_address = (\<lambda>_. 0), map_address = (\<lambda>_. 4096)\<rparr>"

definition example_color :: CoglVertexAttribute where
  "example_color =
     \<lparr>ref_count = 1, array = 0, name = ''cogl_color_in'', stride = 16, offset = 12,
      n_components = 4, type = COGL_VERTEX_ATTRIBUTE_TYPE_UNSIGNED_BYTE, normalized = False,
      name_id = COGL_VERTEX_ATTRIBUTE_NAME_ID_COLOR_ARRAY, texture_unit = 0,
      immutable_ref = 0\<rparr>"

definition example_custom :: CoglVertexAttribute where
  "example_custom =
     \<lparr>ref_count = 1, array = 0, name = ''weight'', stride = 16, offset = 8,
      n_components = 1, type = COGL_VERTEX_ATTRIBUTE_TYPE_FLOAT, normalized = False,
      name_id = COGL_VERTEX_ATTRIBUTE_NAME_ID_CUSTOM_ARRAY, texture_unit = 0,
      immutable_ref = 0\<rparr>"

text \<open>The draw calls among the calls issued so far, and the \<^verbatim>\<open>glDrawElements\<close>
  calls among them.\<close>

definition is_draw_call :: "call \<Rightarrow> bool" where
  "is_draw_call c = (case c of glDrawArrays _ _ _ \<Rightarrow> True | glDrawElements _ _ _ _ \<Rightarrow> True | _ \<Rightarrow> False)"

definition draw_calls :: "cogl_state \<Rightarrow> call list" where
  "draw_calls s = filter is_draw_call (calls s)"

definition is_draw_elements :: "call \<Rightarrow> bool" where
  "is_draw_elements c = (case c of glDrawElements _ _ _ _ \<Rightarrow> True | _ \<Rightarrow> False)"

text \<open>The requests for which \<^verbatim>\<open>get_wire_lines\<close> takes none of its four branches:
  a topology other than the four, or a vertex count that breaks the constraint of
  its topology.\<close>

definition wire_unsupported :: "CoglVerticesMode \<Rightarrow> int \<Rightarrow> bool" where
  "wire_unsupported mode n =
     (\<not> (mode = COGL_VERTICES_MODE_TRIANGLES \<and> n mod 3 = 0)
      \<and> \<not> (mode = COGL_VERTICES_MODE_TRIANGLE_FAN \<and> 3 \<le> n)
      \<and> \<not> (mode = COGL_VERTICES_MODE_TRIANGLE_STRIP \<and> 3 \<le> n)
      \<and> \<not> (mode = GL_QUADS \<and> n mod 4 = 0))"

text \<open>The static \<^verbatim>\<open>wire_pipeline\<close> of \<^verbatim>\<open>draw_wireframe\<close> is unset or the handle of
  a pipeline.\<close>

definition wire_pipeline_ok :: "cogl_state \<Rightarrow> bool" where
  "wire_pipeline_ok s = (case wire_pipeline s of None \<Rightarrow> True | Some p \<Rightarrow> p < length (pipelines s))"

section \<open>Verified properties\<close>

subsection \<open>Construction\<close>

lemma constructed_new_prefixed:
  "take 5 nm = ''cogl_'' \<Longrightarrow>
   constructed (cogl_vertex_attribute_new arr nm strd offs n ty s) =
     (case validate_cogl_attribute nm n of
        Inl d \<Rightarrow> None
      | Inr (nid, norm, u) \<Rightarrow>
          Some \<lparr>ref_count = 1, array = arr, name = nm, stride = strd, offset = offs,
                n_components = n, type = ty, normalized = norm, name_id = nid,
                texture_unit = u, immutable_ref = 0\<rparr>)"
  by (simp add: cogl_vertex_attribute_new_def constructed_def Let_def cogl_object_ref_array_def
      split: sum.splits prod.splits)

lemma constructed_new_custom:
  "take 5 nm \<noteq> ''cogl_'' \<Longrightarrow>
   constructed (cogl_vertex_attribute_new arr nm strd offs n ty s) =
     Some \<lparr>ref_count = 1, array = arr, name = nm, stride = strd, offset = offs,
           n_components = n, type = ty, normalized = False,
           name_id = COGL_VERTEX_ATTRIBUTE_NAME_ID_CUSTOM_ARRAY,
           texture_unit = 0, immutable_ref = 0\<rparr>"
  by (simp add: cogl_vertex_attribute_new_def constructed_def Let_def cogl_object_ref_array_def)

lemma new_null_iff:
  "fst (cogl_vertex_attribute_new arr nm strd offs n ty s) = None
     \<longleftrightarrow> take 5 nm = ''cogl_'' \<and> isl (validate_cogl_attribute nm n)"
  by (simp add: cogl_vertex_attribute_new_def Let_def split: sum.splits prod.splits)

lemma validate_position_in:
  "validate_cogl_attribute ''cogl_position_in'' n =
     (if n = 1 then Inl Critical_position_n_components
      else Inr (COGL_VERTEX_ATTRIBUTE_NAME_ID_POSITION_ARRAY, False, 0))"
  by (simp add: validate_cogl_attribute_def)

lemma validate_color_in:
  "validate_cogl_attribute ''cogl_color_in'' n =
     (if n \<noteq> 3 \<and> n \<noteq> 4 then Inl Critical_color_n_components
      else Inr (COGL_VERTEX_ATTRIBUTE_NAME_ID_COLOR_ARRAY, False, 0))"
  by (simp add: validate_cogl_attribute_def)

lemma validate_normal:
  "validate_cogl_attribute ''cogl_normal'' n =
     (if n \<noteq> 3 then Inl Critical_normal_n_components
      else Inr (COGL_VERTEX_ATTRIBUTE_NAME_ID_NORMAL_ARRAY, True, 0))"
  by (simp add: validate_cogl_attribute_def)

lemma validate_tex_coord_in:
  "validate_cogl_attribute ''cogl_tex_coord_in'' n =
     Inr (COGL_VERTEX_ATTRIBUTE_NAME_ID_TEXTURE_COORD_ARRAY, False, 0)"
  by (simp add: validate_cogl_attribute_def)

lemma validate_normalized_iff:
  "validate_cogl_attribute nm n = Inr (nid, norm, u) \<Longrightarrow>
   norm = (nid = COGL_VERTEX_ATTRIBUTE_NAME_ID_NORMAL_ARRAY)"
  by (auto simp: validate_cogl_attribute_def Let_def split: if_splits option.splits)

text \<open>C8. Construction under the reserved names of the position, colour and normal
  roles returns \<^verbatim>\<open>NULL\<close> exactly when the component count breaks the role's
  contract: \<^verbatim>\<open>cogl_position_in\<close> fails for 1 component and for no other count (so 2,
  3 and 4 succeed), \<^verbatim>\<open>cogl_color_in\<close> fails unless the count is 3 or 4,
  \<^verbatim>\<open>cogl_normal\<close> fails unless the count is 3; where it succeeds the attribute has the
  role of its name. The texture-coordinate role has no such contract:
  \<^verbatim>\<open>cogl_tex_coord_in\<close> succeeds for every count. A name without the reserved prefix
  always succeeds, as a CUSTOM attribute with texture unit 0 that is not
  normalized.\<close>

theorem attribute_new_component_contract:
  "(fst (cogl_vertex_attribute_new arr ''cogl_position_in'' strd offs n ty s) = None
      \<longleftrightarrow> n = 1)
   \<and> (fst (cogl_vertex_attribute_new arr ''cogl_color_in'' strd offs n ty s) = None
      \<longleftrightarrow> n \<noteq> 3 \<and> n \<noteq> 4)
   \<and> (fst (cogl_vertex_attribute_new arr ''cogl_normal'' strd offs n ty s) = None
      \<longleftrightarrow> n \<noteq> 3)
   \<and> map_option name_id
        (constructed (cogl_vertex_attribute_new arr ''cogl_position_in'' strd offs n ty s))
      = (if n = 1 then None else Some COGL_VERTEX_ATTRIBUTE_NAME_ID_POSITION_ARRAY)
   \<and> map_option name_id
        (constructed (cogl_vertex_attribute_new arr ''cogl_color_in'' strd offs n ty s))
      = (if n \<noteq> 3 \<and> n \<noteq> 4 then None else Some COGL_VERTEX_ATTRIBUTE_NAME_ID_COLOR_ARRAY)
   \<and> map_option name_id
        (constructed (cogl_vertex_attribute_new arr ''cogl_normal'' strd offs n ty s))
      = (if n \<noteq> 3 then None else Some COGL_VERTEX_ATTRIBUTE_NAME_ID_NORMAL_ARRAY)
   \<and> map_option name_id
        (constructed (cogl_vertex_attribute_new arr ''cogl_tex_coord_in'' strd offs n ty s))
      = Some COGL_VERTEX_ATTRIBUTE_NAME_ID_TEXTURE_COORD_ARRAY
   \<and> (take 5 nm \<noteq> ''cogl_'' \<longrightarrow>
        fst (cogl_vertex_attribute_new arr nm strd offs n ty s) \<noteq> None
        \<and> map_option name_id (constructed (cogl_vertex_attribute_new arr nm strd offs n ty s))
            = Some COGL_VERTEX_ATTRIBUTE_NAME_ID_CUSTOM_ARRAY
        \<and> map_option texture_unit (constructed (cogl_vertex_attribute_new arr nm strd offs n ty s))
            = Some 0
        \<and> map_option normalized (constructed (cogl_vertex_attribute_new arr nm strd offs n ty s))
            = Some False)"
proof -
  have null: "fst (cogl_vertex_attribute_new arr ''cogl_position_in'' strd offs n ty s) = None
        \<longleftrightarrow> n = 1"
      "fst (cogl_vertex_attribute_new arr ''cogl_color_in'' strd offs n ty s) = None
        \<longleftrightarrow> n \<noteq> 3 \<and> n \<noteq> 4"
      "fst (cogl_vertex_attribute_new arr ''cogl_normal'' strd offs n ty s) = None
        \<longleftrightarrow> n \<noteq> 3"
    by (simp_all add: new_null_iff validate_position_in validate_color_in validate_normal)
  have role: "map_option name_id
        (constructed (cogl_vertex_attribute_new arr ''cogl_position_in'' strd offs n ty s))
      = (if n = 1 then None else Some COGL_VERTEX_ATTRIBUTE_NAME_ID_POSITION_ARRAY)"
      "map_option name_id
        (constructed (cogl_vertex_attribute_new arr ''cogl_color_in'' strd offs n ty s))
      = (if n \<noteq> 3 \<and> n \<noteq> 4 then None else Some COGL_VERTEX_ATTRIBUTE_NAME_ID_COLOR_ARRAY)"
      "map_option name_id
        (constructed (cogl_vertex_attribute_new arr ''cogl_normal'' strd offs n ty s))
      = (if n \<noteq> 3 then None else Some COGL_VERTEX_ATTRIBUTE_NAME_ID_NORMAL_ARRAY)"
      "map_option name_id
        (constructed (cogl_vertex_attribute_new arr ''cogl_tex_coord_in'' strd offs n ty s))
      = Some COGL_VERTEX_ATTRIBUTE_NAME_ID_TEXTURE_COORD_ARRAY"
    by (simp_all add: constructed_new_prefixed validate_position_in validate_color_in
        validate_normal validate_tex_coord_in)
  have custom: "take 5 nm \<noteq> ''cogl_'' \<longrightarrow>
        fst (cogl_vertex_attribute_new arr nm strd offs n ty s) \<noteq> None
        \<and> map_option name_id (constructed (cogl_vertex_attribute_new arr nm strd offs n ty s))
            = Some COGL_VERTEX_ATTRIBUTE_NAME_ID_CUSTOM_ARRAY
        \<and> map_option texture_unit (constructed (cogl_vertex_attribute_new arr nm strd offs n ty s))
            = Some 0
        \<and> map_option normalized (constructed (cogl_vertex_attribute_new arr nm strd offs n ty s))
            = Some False"
    by (simp add: new_null_iff constructed_new_custom)
  from null role custom show ?thesis by blast
qed

text \<open>C8, at concrete inputs: a colour attribute of 2 components is refused, and the
  name \<^verbatim>\<open>weight\<close>, which has no reserved prefix, gives a CUSTOM attribute even with
  one component.\<close>

theorem attribute_new_component_contract_witness:
  "take 5 ''weight'' \<noteq> ''cogl_''
   \<and> fst (cogl_vertex_attribute_new 0 ''cogl_color_in'' 16 0 2
            COGL_VERTEX_ATTRIBUTE_TYPE_FLOAT example_objects) = None
   \<and> fst (cogl_vertex_attribute_new 0 ''weight'' 4 0 1
            COGL_VERTEX_ATTRIBUTE_TYPE_FLOAT example_objects) \<noteq> None
   \<and> map_option name_id (constructed (cogl_vertex_attribute_new 0 ''weight'' 4 0 1
            COGL_VERTEX_ATTRIBUTE_TYPE_FLOAT example_objects))
       = Some COGL_VERTEX_ATTRIBUTE_NAME_ID_CUSTOM_ARRAY"
  using attribute_new_component_contract [of 0 16 0 2 COGL_VERTEX_ATTRIBUTE_TYPE_FLOAT
      example_objects "''weight''"]
    attribute_new_component_contract [of 0 4 0 1 COGL_VERTEX_ATTRIBUTE_TYPE_FLOAT
      example_objects "''weight''"]
  by simp

text \<open>C1 (amended). For an attribute created under a reserved-prefixed name, the
  position role and the texture-coordinate role leave \<open>normalized\<close> false, and the
  normal role sets it to true; this is the value the attribute has until it is set
  explicitly.\<close>

theorem normalized_default_by_role:
  "take 5 nm = ''cogl_'' \<Longrightarrow>
   constructed (cogl_vertex_attribute_new arr nm strd offs n ty s) = Some a \<Longrightarrow>
     (name_id a = COGL_VERTEX_ATTRIBUTE_NAME_ID_POSITION_ARRAY \<longrightarrow> \<not> normalized a)
   \<and> (name_id a = COGL_VERTEX_ATTRIBUTE_NAME_ID_TEXTURE_COORD_ARRAY \<longrightarrow> \<not> normalized a)
   \<and> (name_id a = COGL_VERTEX_ATTRIBUTE_NAME_ID_NORMAL_ARRAY \<longrightarrow> normalized a)"
  by (auto simp: constructed_new_prefixed split: sum.splits prod.splits
      dest: validate_normalized_iff)

text \<open>C1 (amended), at a concrete input: a texture-coordinate attribute for unit 2
  is created and is not normalized.\<close>

theorem normalized_default_by_role_witness:
  "take 5 ''cogl_tex_coord2_in'' = ''cogl_''
   \<and> map_option name_id (constructed (cogl_vertex_attribute_new 0 ''cogl_tex_coord2_in'' 8 0 2
        COGL_VERTEX_ATTRIBUTE_TYPE_FLOAT example_objects))
       = Some COGL_VERTEX_ATTRIBUTE_NAME_ID_TEXTURE_COORD_ARRAY
   \<and> map_option normalized (constructed (cogl_vertex_attribute_new 0 ''cogl_tex_coord2_in'' 8 0 2
        COGL_VERTEX_ATTRIBUTE_TYPE_FLOAT example_objects)) = Some False"
proof -
  let ?r = "constructed (cogl_vertex_attribute_new 0 ''cogl_tex_coord2_in'' 8 0 2
        COGL_VERTEX_ATTRIBUTE_TYPE_FLOAT example_objects)"
  have p: "take 5 ''cogl_tex_coord2_in'' = ''cogl_''" by simp
  obtain a where a: "?r = Some a"
    and r: "name_id a = COGL_VERTEX_ATTRIBUTE_NAME_ID_TEXTURE_COORD_ARRAY"
    by (simp add: constructed_new_prefixed validate_cogl_attribute_def sscanf_tex_coord_u_in_def
        scan_unsigned_def isspace_def isdigit_def)
  from normalized_default_by_role [OF p a] r have "\<not> normalized a" by simp
  with p a r show ?thesis by simp
qed

text \<open>C1, as stated, fails: a three-component attribute named \<^verbatim>\<open>cogl_normal\<close>, a
  reserved-prefixed role other than COLOR, is created with \<open>normalized\<close> true.\<close>

theorem normal_role_is_normalized:
  "map_option name_id (constructed (cogl_vertex_attribute_new 0 ''cogl_normal'' 12 0 3
       COGL_VERTEX_ATTRIBUTE_TYPE_FLOAT example_objects))
     = Some COGL_VERTEX_ATTRIBUTE_NAME_ID_NORMAL_ARRAY
   \<and> map_option normalized (constructed (cogl_vertex_attribute_new 0 ''cogl_normal'' 12 0 3
       COGL_VERTEX_ATTRIBUTE_TYPE_FLOAT example_objects)) = Some True"
  by (simp add: constructed_new_prefixed validate_normal)

text \<open>The colour branch of \<^verbatim>\<open>validate_cogl_attribute\<close> does not assign
  \<^verbatim>\<open>*normalized\<close>, so a colour attribute is created with \<open>normalized\<close> false.
  (The disabled \<^verbatim>\<open>validate_gl_attribute\<close> above it in the source assigns
  \<^verbatim>\<open>TRUE\<close> for \<^verbatim>\<open>gl_Color\<close>.)\<close>

lemma color_role_normalized_unset:
  "constructed (cogl_vertex_attribute_new arr ''cogl_color_in'' strd offs n ty s) = Some a
     \<Longrightarrow> \<not> normalized a"
  by (auto simp: constructed_new_prefixed validate_color_in split: if_splits)

subsection \<open>Setters\<close>

lemma set_normalized_applies:
  "attributes s h = Some a \<Longrightarrow>
   attributes (cogl_vertex_attribute_set_normalized h b s) h = Some (a\<lparr>normalized := b\<rparr>)"
  by (simp add: cogl_vertex_attribute_set_normalized_def warn_about_midscene_changes_def Let_def)

lemma set_array_applies:
  "attributes s h = Some a \<Longrightarrow>
   attributes (cogl_vertex_attribute_set_array h arr s) h = Some (a\<lparr>array := arr\<rparr>)"
  by (simp add: cogl_vertex_attribute_set_array_def cogl_vertex_attribute_set_array_steps_def
      warn_about_midscene_changes_def cogl_object_ref_array_def cogl_object_unref_array_def
      Let_def)

text \<open>The number of mid-scene warnings printed so far plus the one that can still
  come never grows.\<close>

lemma run_setter_warning_budget:
  "count_list (messages (run_setter c s)) Warning_midscene_modification
     + (if seen (run_setter c s) then 0 else 1)
   \<le> count_list (messages s) Warning_midscene_modification + (if seen s then 0 else 1)"
  by (cases c)
    (auto simp: cogl_vertex_attribute_set_normalized_def cogl_vertex_attribute_set_array_def
      cogl_vertex_attribute_set_array_steps_def return_if_fail_def
      warn_about_midscene_changes_def cogl_object_ref_array_def cogl_object_unref_array_def
      Let_def split: option.splits)

lemma run_setters_warning_budget:
  "count_list (messages (run_setters cs s)) Warning_midscene_modification
     + (if seen (run_setters cs s) then 0 else 1)
   \<le> count_list (messages s) Warning_midscene_modification + (if seen s then 0 else 1)"
proof (induction cs arbitrary: s)
  case Nil
  then show ?case by simp
next
  case (Cons c cs)
  have "count_list (messages (run_setters cs (run_setter c s))) Warning_midscene_modification
          + (if seen (run_setters cs (run_setter c s)) then 0 else 1)
        \<le> count_list (messages (run_setter c s)) Warning_midscene_modification
          + (if seen (run_setter c s) then 0 else 1)"
    by (rule Cons.IH)
  also have "\<dots> \<le> count_list (messages s) Warning_midscene_modification
          + (if seen s then 0 else 1)"
    by (rule run_setter_warning_budget)
  finally show ?case by simp
qed

lemma run_setter_seen: "seen s \<Longrightarrow> seen (run_setter c s)"
  by (cases c)
    (auto simp: cogl_vertex_attribute_set_normalized_def cogl_vertex_attribute_set_array_def
      cogl_vertex_attribute_set_array_steps_def return_if_fail_def
      warn_about_midscene_changes_def cogl_object_ref_array_def cogl_object_unref_array_def
      Let_def split: option.splits)

lemma run_setters_seen: "seen s \<Longrightarrow> seen (run_setters cs s)"
  by (induction cs arbitrary: s) (auto simp: run_setter_seen)

text \<open>C9. A call of either setter on a live attribute stores the requested value,
  whatever \<open>immutable_ref\<close> is (also when it is positive), and changes nothing else
  of the attribute. Over any sequence of setter calls, from any state, the number
  of mid-scene warnings printed grows by at most one, and by none once the warned
  state is entered; the warned state, once entered, is never left. So a process,
  which starts unwarned with nothing printed, prints the warning at most once.\<close>

theorem setters_mutate_and_warn_once:
  "(attributes s h = Some a \<longrightarrow>
      attributes (cogl_vertex_attribute_set_normalized h b s) h = Some (a\<lparr>normalized := b\<rparr>)
    \<and> attributes (cogl_vertex_attribute_set_array h arr s) h = Some (a\<lparr>array := arr\<rparr>))
   \<and> count_list (messages (run_setters cs s)) Warning_midscene_modification
        \<le> count_list (messages s) Warning_midscene_modification + (if seen s then 0 else 1)
   \<and> (seen s \<longrightarrow> seen (run_setters cs s))
   \<and> (\<not> seen s \<and> messages s = [] \<longrightarrow>
        count_list (messages (run_setters cs s)) Warning_midscene_modification \<le> 1)"
proof -
  have budget: "count_list (messages (run_setters cs s)) Warning_midscene_modification
        \<le> count_list (messages s) Warning_midscene_modification + (if seen s then 0 else 1)"
    using run_setters_warning_budget [of cs s] by (simp split: if_splits)
  moreover from budget have "\<not> seen s \<and> messages s = [] \<longrightarrow>
        count_list (messages (run_setters cs s)) Warning_midscene_modification \<le> 1"
    by auto
  ultimately show ?thesis
    by (simp add: set_normalized_applies set_array_applies run_setters_seen)
qed

text \<open>C9, at a concrete input: on the pinned attribute of \<open>example_pinned\<close>
  (\<open>immutable_ref = 1\<close>) three setter calls in a row all take effect, and exactly
  one warning is printed.\<close>

theorem setters_mutate_and_warn_once_witness:
  "attributes example_pinned 1 = Some example_attribute
   \<and> \<not> seen example_pinned \<and> messages example_pinned = []
   \<and> 0 < immutable_ref example_attribute
   \<and> attributes (cogl_vertex_attribute_set_normalized 1 True example_pinned) 1
       = Some (example_attribute\<lparr>normalized := True\<rparr>)
   \<and> messages (run_setters [Set_normalized 1 True, Set_array 1 0, Set_normalized 1 False]
        example_pinned) = [Warning_midscene_modification]
   \<and> count_list (messages (run_setters
        [Set_normalized 1 True, Set_array 1 0, Set_normalized 1 False] example_pinned))
        Warning_midscene_modification \<le> 1"
proof -
  have a: "attributes example_pinned 1 = Some example_attribute"
    and n: "\<not> seen example_pinned \<and> messages example_pinned = []"
    and i: "0 < immutable_ref example_attribute"
    by (simp_all add: example_pinned_def example_attribute_def)
  have m: "messages (run_setters [Set_normalized 1 True, Set_array 1 0, Set_normalized 1 False]
        example_pinned) = [Warning_midscene_modification]"
    by (simp add: example_pinned_def example_attribute_def
        cogl_vertex_attribute_set_normalized_def cogl_vertex_attribute_set_array_def
        cogl_vertex_attribute_set_array_steps_def warn_about_midscene_changes_def
        cogl_object_ref_array_def cogl_object_unref_array_def Let_def)
  from setters_mutate_and_warn_once [of example_pinned 1 example_attribute True 0
      "[Set_normalized 1 True, Set_array 1 0, Set_normalized 1 False]"] a n i m
  show ?thesis by simp
qed

text \<open>C10. Setting an attribute's array to the array it already references, while
  that array is live (the attribute holds one of its references): the reference is
  taken before the old one is dropped, so through the body of the setter the
  array's count reads c, c + 1, c, c and is never zero; afterwards every array has
  the count it had before and the attribute references the same array.\<close>

theorem set_array_self_assignment:
  assumes "attributes s h = Some a" and "0 < array_ref_count s (array a)"
  shows "map (\<lambda>t. array_ref_count t (array a))
              (cogl_vertex_attribute_set_array_steps h (array a) s)
           = [array_ref_count s (array a), array_ref_count s (array a) + 1,
              array_ref_count s (array a), array_ref_count s (array a)]
       \<and> (\<forall>t \<in> set (cogl_vertex_attribute_set_array_steps h (array a) s).
             0 < array_ref_count t (array a))
       \<and> array_ref_count (cogl_vertex_attribute_set_array h (array a) s) = array_ref_count s
       \<and> attributes (cogl_vertex_attribute_set_array h (array a) s) h = Some a"
  using assms
  by (auto simp: cogl_vertex_attribute_set_array_def cogl_vertex_attribute_set_array_steps_def
      warn_about_midscene_changes_def cogl_object_ref_array_def cogl_object_unref_array_def
      Let_def)

text \<open>C10, at a concrete input: the attribute of \<open>example_pinned\<close> references
  array 0, whose count is 2; the setter takes it through 2, 3, 2, 2.\<close>

theorem set_array_self_assignment_witness:
  "attributes example_pinned 1 = Some example_attribute
   \<and> 0 < array_ref_count example_pinned (array example_attribute)
   \<and> map (\<lambda>t. array_ref_count t 0) (cogl_vertex_attribute_set_array_steps 1 0 example_pinned)
       = [2, 3, 2, 2]
   \<and> array_ref_count (cogl_vertex_attribute_set_array 1 0 example_pinned) 0 = 2"
proof -
  have a: "attributes example_pinned 1 = Some example_attribute"
    and c: "0 < array_ref_count example_pinned (array example_attribute)"
    and z: "array example_attribute = 0" "array_ref_count example_pinned 0 = 2"
    by (simp_all add: example_pinned_def example_attribute_def)
  from set_array_self_assignment [OF a c] a c z show ?thesis by simp
qed

subsection \<open>Layer validation\<close>

lemma validate_layer_cb_eq:
  "validate_layer_cb g c i (st, log) =
     (True,
      (if cannot_repeat g c i
       then st\<lparr>fallback_layers := fallback_layers st OR push_bit (nat (unit st mod 32)) 1,
               options := (options st)\<lparr>flags :=
                  insert COGL_PIPELINE_FLUSH_FALLBACK_MASK (flags (options st))\<rparr>,
               unit := unit st + 1\<rparr>
       else st\<lparr>unit := unit st + 1\<rparr>),
      (if cannot_repeat g c i then log @ [Warning_disabling_layer i] else log))"
  by (simp add: validate_layer_cb_def cannot_repeat_def split: option.splits)

lemma validate_layer_cb_continue: "fst (validate_layer_cb g c i sl) = True"
  by (cases sl) (simp add: validate_layer_cb_eq)

lemma bit_one_shift: "bit ((2::32 word) ^ n) j \<longleftrightarrow> j = n \<and> n < 32"
  by (auto simp: bit_exp_iff)

lemma shift_count_in_mask: "nat (u mod 32) < 32"
  by simp

lemma foreach_unit:
  "unit (fst (cogl_pipeline_foreach_layer idxs (validate_layer_cb g c) (st, log)))
     = unit st + int (length idxs)"
  by (induction idxs arbitrary: st log) (simp_all add: validate_layer_cb_eq)

text \<open>The bits of the mask after a sequence of layers: those set before, and for
  each layer that cannot be repeated the bit the shift gives for its position.\<close>

lemma foreach_bits:
  "bit (fallback_layers (fst (cogl_pipeline_foreach_layer idxs (validate_layer_cb g c) (st, log)))) j
     \<longleftrightarrow> bit (fallback_layers st) j
        \<or> (\<exists>k < length idxs. cannot_repeat g c (idxs ! k) \<and> j = nat ((unit st + int k) mod 32))"
proof (induction idxs arbitrary: st log)
  case Nil
  then show ?case by simp
next
  case (Cons i idxs)
  have a: "\<And>k. unit st + 1 + int k = unit st + (1 + int k)" by simp
  show ?case
    by (simp add: validate_layer_cb_eq Cons.IH bit_or_iff bit_one_shift less_Suc_eq_0_disj
        ex_disj_distrib conj_disj_distribR a) auto
qed

lemma foreach_flags:
  "flags (options (fst (cogl_pipeline_foreach_layer idxs (validate_layer_cb g c) (st, log))))
     = flags (options st)
       \<union> (if \<exists>i \<in> set idxs. cannot_repeat g c i then {COGL_PIPELINE_FLUSH_FALLBACK_MASK} else {})"
  by (induction idxs arbitrary: st log) (auto simp add: validate_layer_cb_eq)

text \<open>C5 (amended). One call of the validator always returns "continue" and adds
  exactly one to the unit counter. A layer without a texture leaves
  \<open>fallback_layers\<close> and the options as they were. A layer whose texture cannot be
  repeated in hardware sets the fallback-mask flag in the options, whatever the
  counter is, and sets the bit at the counter in \<open>fallback_layers\<close> when the
  counter is a bit position of the 32-bit mask (\<open>0 \<le> unit < 32\<close>). Over any
  sequence of layers validated in order from a counter \<open>u\<close>: the counter ends at
  \<open>u\<close> plus the number of layers; each layer of the sequence whose texture
  cannot be repeated has the flag set, and, if its own position \<open>u + k\<close> is below
  32, its bit set, however long the sequence is; and no bit and no flag is set that
  was not set before or does not come from such a layer.\<close>

theorem validate_layer_cb_fallback:
  "fst (validate_layer_cb g c i (st, log)) = True
   \<and> unit (fst (snd (validate_layer_cb g c i (st, log)))) = unit st + 1
   \<and> (g i = None \<longrightarrow>
        fallback_layers (fst (snd (validate_layer_cb g c i (st, log)))) = fallback_layers st
        \<and> options (fst (snd (validate_layer_cb g c i (st, log)))) = options st)
   \<and> (cannot_repeat g c i \<longrightarrow>
        COGL_PIPELINE_FLUSH_FALLBACK_MASK
          \<in> flags (options (fst (snd (validate_layer_cb g c i (st, log))))))
   \<and> (cannot_repeat g c i \<and> 0 \<le> unit st \<and> unit st < 32 \<longrightarrow>
        bit (fallback_layers (fst (snd (validate_layer_cb g c i (st, log))))) (nat (unit st)))
   \<and> unit (fst (cogl_pipeline_foreach_layer idxs (validate_layer_cb g c) (st, log)))
        = unit st + int (length idxs)
   \<and> (\<forall>k < length idxs. cannot_repeat g c (idxs ! k) \<longrightarrow>
         COGL_PIPELINE_FLUSH_FALLBACK_MASK
           \<in> flags (options
               (fst (cogl_pipeline_foreach_layer idxs (validate_layer_cb g c) (st, log))))
         \<and> (0 \<le> unit st \<and> unit st + int k < 32 \<longrightarrow>
              bit (fallback_layers
                     (fst (cogl_pipeline_foreach_layer idxs (validate_layer_cb g c) (st, log))))
                  (nat (unit st) + k)))
   \<and> (\<forall>j. bit (fallback_layers
                 (fst (cogl_pipeline_foreach_layer idxs (validate_layer_cb g c) (st, log))))
              j \<longrightarrow>
          bit (fallback_layers st) j
          \<or> (\<exists>k < length idxs. cannot_repeat g c (idxs ! k)
                \<and> j = nat ((unit st + int k) mod 32)))
   \<and> (COGL_PIPELINE_FLUSH_FALLBACK_MASK
         \<in> flags (options
             (fst (cogl_pipeline_foreach_layer idxs (validate_layer_cb g c) (st, log))))
        \<longrightarrow> COGL_PIPELINE_FLUSH_FALLBACK_MASK \<in> flags (options st)
             \<or> (\<exists>i \<in> set idxs. cannot_repeat g c i))"
proof -
  have one: "fst (validate_layer_cb g c i (st, log)) = True"
      "unit (fst (snd (validate_layer_cb g c i (st, log)))) = unit st + 1"
    by (simp_all add: validate_layer_cb_eq)
  have none: "g i = None \<longrightarrow>
        fallback_layers (fst (snd (validate_layer_cb g c i (st, log)))) = fallback_layers st
        \<and> options (fst (snd (validate_layer_cb g c i (st, log)))) = options st"
    by (simp add: validate_layer_cb_eq cannot_repeat_def)
  have flag: "cannot_repeat g c i \<longrightarrow>
        COGL_PIPELINE_FLUSH_FALLBACK_MASK
          \<in> flags (options (fst (snd (validate_layer_cb g c i (st, log)))))"
    by (simp add: validate_layer_cb_eq)
  have unsafe: "cannot_repeat g c i \<and> 0 \<le> unit st \<and> unit st < 32 \<longrightarrow>
        bit (fallback_layers (fst (snd (validate_layer_cb g c i (st, log))))) (nat (unit st))"
    by (auto simp: validate_layer_cb_eq bit_or_iff bit_one_shift)
  have seq: "\<forall>k < length idxs. cannot_repeat g c (idxs ! k) \<longrightarrow>
         COGL_PIPELINE_FLUSH_FALLBACK_MASK
           \<in> flags (options
               (fst (cogl_pipeline_foreach_layer idxs (validate_layer_cb g c) (st, log))))
         \<and> (0 \<le> unit st \<and> unit st + int k < 32 \<longrightarrow>
              bit (fallback_layers
                     (fst (cogl_pipeline_foreach_layer idxs (validate_layer_cb g c) (st, log))))
                  (nat (unit st) + k))"
  proof (intro allI impI conjI)
    fix k
    assume k: "k < length idxs" and u: "cannot_repeat g c (idxs ! k)"
    from k u show "COGL_PIPELINE_FLUSH_FALLBACK_MASK
           \<in> flags (options
               (fst (cogl_pipeline_foreach_layer idxs (validate_layer_cb g c) (st, log))))"
      by (auto simp: foreach_flags)
    assume b: "0 \<le> unit st \<and> unit st + int k < 32"
    then have "nat ((unit st + int k) mod 32) = nat (unit st) + k"
      by (simp add: nat_add_distrib)
    with k u show "bit (fallback_layers
                     (fst (cogl_pipeline_foreach_layer idxs (validate_layer_cb g c) (st, log))))
                  (nat (unit st) + k)"
      by (auto simp: foreach_bits)
  qed
  have only: "\<forall>j. bit (fallback_layers
                 (fst (cogl_pipeline_foreach_layer idxs (validate_layer_cb g c) (st, log))))
              j \<longrightarrow>
          bit (fallback_layers st) j
          \<or> (\<exists>k < length idxs. cannot_repeat g c (idxs ! k)
                \<and> j = nat ((unit st + int k) mod 32))"
    by (simp add: foreach_bits)
  have fl: "COGL_PIPELINE_FLUSH_FALLBACK_MASK
              \<in> flags (options
                  (fst (cogl_pipeline_foreach_layer idxs (validate_layer_cb g c) (st, log))))
             \<longrightarrow> COGL_PIPELINE_FLUSH_FALLBACK_MASK \<in> flags (options st)
                  \<or> (\<exists>i \<in> set idxs. cannot_repeat g c i)"
    by (auto simp: foreach_flags split: if_splits)
  from one none flag unsafe seq only fl foreach_unit [of idxs g c st log] show ?thesis
    by blast
qed

text \<open>C5 (amended), at concrete inputs. The three layers of
  \<open>example_layer_texture\<close> validated from the initial state: only layer 1 cannot
  be repeated, the mask ends as 2 (bit 1 alone), the flag is set, the counter is 3
  and one message names layer 1. And a pipeline of 40 layers of which only the
  layer at position 5 cannot be repeated: the sequence runs past the width of the
  mask, yet bit 5 and the flag are set and the counter ends at 40.\<close>

theorem validate_layer_cb_fallback_witness:
  "cannot_repeat example_layer_texture id ([0, 1, 2] ! 1)
   \<and> example_layer_texture 2 = None
   \<and> 0 \<le> unit initial_validate_state
   \<and> unit initial_validate_state + int 1 < 32
   \<and> bit (fallback_layers (fst (cogl_pipeline_foreach_layer [0, 1, 2]
              (validate_layer_cb example_layer_texture id) (initial_validate_state, [])))) 1
   \<and> cogl_pipeline_foreach_layer [0, 1, 2]
        (validate_layer_cb example_layer_texture id) (initial_validate_state, [])
       = (\<lparr>unit = 3, options = \<lparr>flags = {COGL_PIPELINE_FLUSH_FALLBACK_MASK}\<rparr>,
           fallback_layers = 2\<rparr>, [Warning_disabling_layer 1])
   \<and> 5 < length (map int [0..<40])
   \<and> cannot_repeat (example_single_bad_layer 5) id (map int [0..<40] ! 5)
   \<and> unit initial_validate_state + int 5 < 32
   \<and> bit (fallback_layers (fst (cogl_pipeline_foreach_layer (map int [0..<40])
              (validate_layer_cb (example_single_bad_layer 5) id)
              (initial_validate_state, [])))) 5
   \<and> COGL_PIPELINE_FLUSH_FALLBACK_MASK
        \<in> flags (options (fst (cogl_pipeline_foreach_layer (map int [0..<40])
              (validate_layer_cb (example_single_bad_layer 5) id)
              (initial_validate_state, []))))
   \<and> unit (fst (cogl_pipeline_foreach_layer (map int [0..<40])
              (validate_layer_cb (example_single_bad_layer 5) id)
              (initial_validate_state, []))) = 40"
proof -
  have h: "cannot_repeat example_layer_texture id ([0, 1, 2] ! 1)"
      "example_layer_texture 2 = None"
      "0 \<le> unit initial_validate_state"
      "unit initial_validate_state + int 1 < 32"
      "unit initial_validate_state + int 5 < 32"
      "unit initial_validate_state = 0"
    by (simp_all add: cannot_repeat_def example_layer_texture_def initial_validate_state_def)
  have e: "cogl_pipeline_foreach_layer [0, 1, 2]
        (validate_layer_cb example_layer_texture id) (initial_validate_state, [])
       = (\<lparr>unit = 3, options = \<lparr>flags = {COGL_PIPELINE_FLUSH_FALLBACK_MASK}\<rparr>,
           fallback_layers = 2\<rparr>, [Warning_disabling_layer 1])"
    by (simp add: validate_layer_cb_def example_layer_texture_def initial_validate_state_def)
  from validate_layer_cb_fallback [of example_layer_texture id 1 initial_validate_state "[]"
      "[0, 1, 2]"] h
  have three: "bit (fallback_layers (fst (cogl_pipeline_foreach_layer [0, 1, 2]
              (validate_layer_cb example_layer_texture id) (initial_validate_state, [])))) 1"
    by (auto simp: initial_validate_state_def)
  have k: "5 < length (map int [0..<40])"
      "cannot_repeat (example_single_bad_layer 5) id (map int [0..<40] ! 5)"
    by (simp_all add: cannot_repeat_def example_single_bad_layer_def)
  from validate_layer_cb_fallback [of "example_single_bad_layer 5" id 5
      initial_validate_state "[]" "map int [0..<40]"]
  have u: "unit (fst (cogl_pipeline_foreach_layer (map int [0..<40])
              (validate_layer_cb (example_single_bad_layer 5) id)
              (initial_validate_state, []))) = unit initial_validate_state + int (length (map int [0..<40]))"
    and s: "\<forall>k < length (map int [0..<40]).
         cannot_repeat (example_single_bad_layer 5) id (map int [0..<40] ! k) \<longrightarrow>
         COGL_PIPELINE_FLUSH_FALLBACK_MASK
           \<in> flags (options
               (fst (cogl_pipeline_foreach_layer (map int [0..<40])
                  (validate_layer_cb (example_single_bad_layer 5) id)
                  (initial_validate_state, []))))
         \<and> (0 \<le> unit initial_validate_state \<and> unit initial_validate_state + int k < 32 \<longrightarrow>
              bit (fallback_layers
                     (fst (cogl_pipeline_foreach_layer (map int [0..<40])
                        (validate_layer_cb (example_single_bad_layer 5) id)
                        (initial_validate_state, []))))
                  (nat (unit initial_validate_state) + k))"
    by blast+
  from s [rule_format, OF k] h
  have forty: "COGL_PIPELINE_FLUSH_FALLBACK_MASK
        \<in> flags (options (fst (cogl_pipeline_foreach_layer (map int [0..<40])
              (validate_layer_cb (example_single_bad_layer 5) id)
              (initial_validate_state, []))))"
    "bit (fallback_layers (fst (cogl_pipeline_foreach_layer (map int [0..<40])
              (validate_layer_cb (example_single_bad_layer 5) id)
              (initial_validate_state, [])))) 5"
    by simp_all
  from u h have cnt: "unit (fst (cogl_pipeline_foreach_layer (map int [0..<40])
              (validate_layer_cb (example_single_bad_layer 5) id)
              (initial_validate_state, []))) = 40"
    by simp
  from h(1-5) e three k forty cnt show ?thesis by simp
qed

text \<open>C5, as stated, fails: a pipeline of 33 layers of which only the last, at
  position 32, has a texture that cannot be repeated. The layer does report it
  (the flag is set), but \<open>fallback_layers\<close> has 32 bits and none at position 32:
  the bit that ends up set is bit 0, the position of the first layer.\<close>

theorem validate_layer_cb_position_32:
  "cannot_repeat (example_single_bad_layer 32) id (map int [0..<33] ! 32)
   \<and> \<not> bit (fallback_layers (fst (cogl_pipeline_foreach_layer (map int [0..<33])
              (validate_layer_cb (example_single_bad_layer 32) id)
              (initial_validate_state, [])))) 32
   \<and> bit (fallback_layers (fst (cogl_pipeline_foreach_layer (map int [0..<33])
              (validate_layer_cb (example_single_bad_layer 32) id)
              (initial_validate_state, [])))) 0
   \<and> COGL_PIPELINE_FLUSH_FALLBACK_MASK
        \<in> flags (options (fst (cogl_pipeline_foreach_layer (map int [0..<33])
              (validate_layer_cb (example_single_bad_layer 32) id)
              (initial_validate_state, []))))"
proof -
  have c: "\<And>k. k < 33 \<Longrightarrow>
      cannot_repeat (example_single_bad_layer 32) id (map int [0..<33] ! k) \<longleftrightarrow> k = 32"
    by (simp add: cannot_repeat_def example_single_bad_layer_def)
  have u: "unit initial_validate_state = 0" "fallback_layers initial_validate_state = 0"
    by (simp_all add: initial_validate_state_def)
  have no32: "\<not> bit (fallback_layers (fst (cogl_pipeline_foreach_layer (map int [0..<33])
              (validate_layer_cb (example_single_bad_layer 32) id)
              (initial_validate_state, [])))) 32"
  proof
    assume "bit (fallback_layers (fst (cogl_pipeline_foreach_layer (map int [0..<33])
              (validate_layer_cb (example_single_bad_layer 32) id)
              (initial_validate_state, [])))) 32"
    then obtain k where "k < 33" and "(32::nat) = nat ((0 + int k) mod 32)"
      by (auto simp: foreach_bits u)
    moreover have "nat ((0 + int k) mod 32) < 32" by (rule shift_count_in_mask)
    ultimately show False by simp
  qed
  have b0: "bit (fallback_layers (fst (cogl_pipeline_foreach_layer (map int [0..<33])
              (validate_layer_cb (example_single_bad_layer 32) id)
              (initial_validate_state, [])))) 0"
  proof -
    have "(32::nat) < length (map int [0..<33])
        \<and> cannot_repeat (example_single_bad_layer 32) id (map int [0..<33] ! 32)
        \<and> (0::nat) = nat ((0 + int 32) mod 32)"
      using c [of 32] by simp
    then show ?thesis
      unfolding foreach_bits u by blast
  qed
  have fl: "COGL_PIPELINE_FLUSH_FALLBACK_MASK
        \<in> flags (options (fst (cogl_pipeline_foreach_layer (map int [0..<33])
              (validate_layer_cb (example_single_bad_layer 32) id)
              (initial_validate_state, []))))"
  proof -
    have m: "map int [0..<33] ! 32 \<in> set (map int [0..<33])"
      by (rule nth_mem) simp
    have cr: "cannot_repeat (example_single_bad_layer 32) id (map int [0..<33] ! 32)"
      using c [of 32] by simp
    from m cr have ex: "\<exists>i \<in> set (map int [0..<33]).
        cannot_repeat (example_single_bad_layer 32) id i"
      by blast
    show ?thesis
      by (simp only: foreach_flags ex if_True Un_iff insert_iff simp_thms)
  qed
  from c [of 32] no32 b0 fl show ?thesis by simp
qed

subsection \<open>State flush\<close>

lemma enable_attribute_derived:
  "p < length P0 \<Longrightarrow> derived_from p P0 ls \<Longrightarrow> derived_from p P0 (enable_attribute a ls)"
  by (cases ls)
    (auto simp: derived_from_def enable_attribute_def Let_def emit_def
      cogl_pipeline_get_real_blend_enabled_def cogl_pipeline_copy_def
      cogl_pipeline_set_blend_enabled_def update_pipeline_def nth_append
      split: CoglVertexAttributeNameID.splits option.splits)

lemma enable_attribute_blend_on:
  "p < length P0 \<Longrightarrow> derived_from p P0 ls \<Longrightarrow>
   name_id a = COGL_VERTEX_ATTRIBUTE_NAME_ID_COLOR_ARRAY \<or> blend_on ls \<Longrightarrow>
   blend_on (enable_attribute a ls)"
  by (cases ls)
    (auto simp: derived_from_def blend_on_def enable_attribute_def Let_def emit_def
      cogl_pipeline_get_real_blend_enabled_def cogl_pipeline_copy_def
      cogl_pipeline_set_blend_enabled_def update_pipeline_def nth_append
      split: CoglVertexAttributeNameID.splits option.splits)

lemma enable_attributes_derived:
  "p < length P0 \<Longrightarrow> derived_from p P0 ls \<Longrightarrow> derived_from p P0 (enable_attributes as ls)"
  by (induction as arbitrary: ls) (auto simp: enable_attribute_derived)

lemma enable_attributes_blend_on:
  "p < length P0 \<Longrightarrow> derived_from p P0 ls \<Longrightarrow>
   (\<exists>a \<in> set as. name_id a = COGL_VERTEX_ATTRIBUTE_NAME_ID_COLOR_ARRAY) \<or> blend_on ls \<Longrightarrow>
   blend_on (enable_attributes as ls)"
proof (induction as arbitrary: ls)
  case Nil
  then show ?case by simp
next
  case (Cons a as)
  show ?case
  proof (cases "name_id a = COGL_VERTEX_ATTRIBUTE_NAME_ID_COLOR_ARRAY \<or> blend_on ls")
    case True
    with Cons.prems have "blend_on (enable_attribute a ls)"
      by (simp add: enable_attribute_blend_on)
    with Cons.prems Cons.IH [of "enable_attribute a ls"] show ?thesis
      by (simp add: enable_attribute_derived)
  next
    case False
    with Cons.prems Cons.IH [of "enable_attribute a ls"] show ?thesis
      by (auto simp add: enable_attribute_derived)
  qed
qed

lemma enable_attribute_frame:
  "source_stack (snd (enable_attribute a ls)) = source_stack (snd ls)
   \<and> legacy_state_set (snd (enable_attribute a ls)) = legacy_state_set (snd ls)
   \<and> debug_wireframe (snd (enable_attribute a ls)) = debug_wireframe (snd ls)"
  by (cases ls)
    (auto simp: enable_attribute_def Let_def emit_def
      cogl_pipeline_copy_def cogl_pipeline_set_blend_enabled_def update_pipeline_def
      split: CoglVertexAttributeNameID.splits)

lemma enable_attributes_frame:
  "source_stack (snd (enable_attributes as ls)) = source_stack (snd ls)
   \<and> legacy_state_set (snd (enable_attributes as ls)) = legacy_state_set (snd ls)
   \<and> debug_wireframe (snd (enable_attributes as ls)) = debug_wireframe (snd ls)"
  by (induction as arbitrary: ls) (simp_all add: enable_attribute_frame)

lemma enable_attribute_keeps_source:
  "real_blend_enable (pipelines s ! source l) \<Longrightarrow>
   pipelines (snd (enable_attribute a (l, s))) = pipelines s
   \<and> source (fst (enable_attribute a (l, s))) = source l
   \<and> copy (fst (enable_attribute a (l, s))) = copy l"
  by (auto simp: enable_attribute_def Let_def emit_def cogl_pipeline_get_real_blend_enabled_def
      split: CoglVertexAttributeNameID.splits)

lemma enable_attributes_keeps_source:
  "real_blend_enable (pipelines (snd ls) ! source (fst ls)) \<Longrightarrow>
   pipelines (snd (enable_attributes as ls)) = pipelines (snd ls)
   \<and> source (fst (enable_attributes as ls)) = source (fst ls)
   \<and> copy (fst (enable_attributes as ls)) = copy (fst ls)"
proof (induction as arbitrary: ls)
  case Nil
  then show ?case by simp
next
  case (Cons a as)
  obtain l s where ls: "ls = (l, s)" by (cases ls)
  from Cons.prems ls have k: "pipelines (snd (enable_attribute a ls)) = pipelines (snd ls)
      \<and> source (fst (enable_attribute a ls)) = source (fst ls)
      \<and> copy (fst (enable_attribute a ls)) = copy (fst ls)"
    using enable_attribute_keeps_source [of s l a] by simp
  with Cons.prems have "real_blend_enable
      (pipelines (snd (enable_attribute a ls)) ! source (fst (enable_attribute a ls)))"
    by simp
  from Cons.IH [OF this] k show ?case by simp
qed

text \<open>C3. When the active pipeline \<open>p\<close> has real blending off and the attribute set
  holds a COLOR attribute, \<^verbatim>\<open>enable_gl_state\<close> returns a pipeline that is not
  \<open>p\<close>, whose real blending is on; the pipeline \<open>p\<close> itself is as it was (its
  blend flag included) and is still the active one, so the pipeline later handed
  to \<^verbatim>\<open>disable_gl_state\<close> differs from it.\<close>

theorem enable_gl_state_forces_blending:
  assumes src: "cogl_get_source s = Some p"
    and lt: "p < length (pipelines s)"
    and off: "\<not> cogl_pipeline_get_real_blend_enabled p s"
    and col: "\<exists>a \<in> set attrs. name_id a = COGL_VERTEX_ATTRIBUTE_NAME_ID_COLOR_ARRAY"
  shows "\<exists>q s'. enable_gl_state attrs state s = Some (q, s')
           \<and> q \<noteq> p
           \<and> q < length (pipelines s')
           \<and> cogl_pipeline_get_real_blend_enabled q s'
           \<and> pipelines s' ! p = pipelines s ! p
           \<and> \<not> cogl_pipeline_get_real_blend_enabled p s'
           \<and> cogl_get_source s' = Some p"
proof -
  let ?l0 = "\<lparr>generic_index = 0, enable_flags = {}, skip_gl_color = False,
              source = p, copy = None\<rparr>"
  let ?s0 = "s\<lparr>temp_bitmask := {}\<rparr>"
  obtain l1 s1 where loop: "enable_attributes attrs (?l0, ?s0) = (l1, s1)"
    by (cases "enable_attributes attrs (?l0, ?s0)")
  have d0: "derived_from p (pipelines s) (?l0, ?s0)"
    using lt by (simp add: derived_from_def)
  from enable_attributes_derived [OF lt d0, of attrs] loop
  have d: "derived_from p (pipelines s) (l1, s1)" by simp
  from enable_attributes_blend_on [OF lt d0, of attrs] col loop
  have b: "blend_on (l1, s1)" by simp
  from off have off': "\<not> real_blend_enable (pipelines s ! p)"
    by (simp add: cogl_pipeline_get_real_blend_enabled_def)
  from d b off' obtain c where c: "copy l1 = Some c" "source l1 = c"
      "length (pipelines s) \<le> c" "c < length (pipelines s1)"
      "real_blend_enable (pipelines s1 ! c)"
      "take (length (pipelines s)) (pipelines s1) = pipelines s"
    by (auto simp: derived_from_def blend_on_def split: option.splits)
  from c(6) lt have orig: "pipelines s1 ! p = pipelines s ! p"
    by (metis nth_take)
  from enable_attributes_frame [of attrs "(?l0, ?s0)"] loop
  have fr: "source_stack s1 = source_stack s" "legacy_state_set s1 = legacy_state_set s"
    by simp_all
  from c(3) lt have ne: "c \<noteq> p" by simp
  show ?thesis
    using src lt loop c orig fr ne off'
    by (simp add: enable_gl_state_def Let_def emit_def cogl_get_source_def
        cogl_pipeline_apply_overrides_def cogl_pipeline_apply_legacy_state_def
        update_pipeline_def cogl_pipeline_get_real_blend_enabled_def)
qed

text \<open>C3, at a concrete input: a position and a colour attribute drawn with the
  pipeline of \<open>example_state\<close>, which does not blend. The pipeline returned is
  the new pipeline 1, with blending on; pipeline 0 is unchanged.\<close>

theorem enable_gl_state_forces_blending_witness:
  "cogl_get_source example_state = Some 0
   \<and> 0 < length (pipelines example_state)
   \<and> \<not> cogl_pipeline_get_real_blend_enabled 0 example_state
   \<and> name_id example_color = COGL_VERTEX_ATTRIBUTE_NAME_ID_COLOR_ARRAY
   \<and> map_option fst (enable_gl_state [example_attribute, example_color]
        initial_validate_state example_state) = Some 1
   \<and> map_option (\<lambda>r. pipelines (snd r)) (enable_gl_state [example_attribute, example_color]
        initial_validate_state example_state)
       = Some [example_pipeline, example_pipeline\<lparr>real_blend_enable := True\<rparr>]"
proof -
  have h: "cogl_get_source example_state = Some 0" "0 < length (pipelines example_state)"
      "\<not> cogl_pipeline_get_real_blend_enabled 0 example_state"
      "name_id example_color = COGL_VERTEX_ATTRIBUTE_NAME_ID_COLOR_ARRAY"
    by (simp_all add: example_state_def example_color_def cogl_get_source_def
        cogl_pipeline_get_real_blend_enabled_def example_pipeline_def)
  from h(4) have col: "\<exists>a \<in> set [example_attribute, example_color].
      name_id a = COGL_VERTEX_ATTRIBUTE_NAME_ID_COLOR_ARRAY" by simp
  from enable_gl_state_forces_blending [OF h(1) h(2) h(3) col, of initial_validate_state]
  obtain q s' where r: "enable_gl_state [example_attribute, example_color]
        initial_validate_state example_state = Some (q, s')" and "q \<noteq> 0"
    by blast
  have e: "map_option fst (enable_gl_state [example_attribute, example_color]
        initial_validate_state example_state) = Some 1
     \<and> map_option (\<lambda>r. pipelines (snd r)) (enable_gl_state [example_attribute, example_color]
        initial_validate_state example_state)
       = Some [example_pipeline, example_pipeline\<lparr>real_blend_enable := True\<rparr>]"
    by (simp add: enable_gl_state_def enable_attribute_def Let_def emit_def cogl_get_source_def
        example_state_def example_attribute_def example_color_def example_pipeline_def
        initial_validate_state_def cogl_pipeline_get_real_blend_enabled_def
        cogl_pipeline_copy_def cogl_pipeline_set_blend_enabled_def update_pipeline_def)
  with h r show ?thesis by simp
qed

text \<open>C4. When the active pipeline \<open>p\<close> already has real blending on, no
  validator-driven override flag is pending and no legacy state is set,
  \<^verbatim>\<open>enable_gl_state\<close> returns \<open>p\<close> itself and makes no pipeline: the pipelines
  after the call are those before it. This holds for every attribute set, with or
  without COLOR attributes.\<close>

theorem enable_gl_state_reuses_blending_pipeline:
  assumes src: "cogl_get_source s = Some p"
    and lt: "p < length (pipelines s)"
    and on: "cogl_pipeline_get_real_blend_enabled p s"
    and nofl: "flags (options state) = {}"
    and noleg: "\<not> legacy_state_set s"
  shows "\<exists>s'. enable_gl_state attrs state s = Some (p, s')
           \<and> pipelines s' = pipelines s
           \<and> cogl_get_source s' = Some p"
proof -
  let ?l0 = "\<lparr>generic_index = 0, enable_flags = {}, skip_gl_color = False,
              source = p, copy = None\<rparr>"
  let ?s0 = "s\<lparr>temp_bitmask := {}\<rparr>"
  obtain l1 s1 where loop: "enable_attributes attrs (?l0, ?s0) = (l1, s1)"
    by (cases "enable_attributes attrs (?l0, ?s0)")
  from on have "real_blend_enable (pipelines (snd (?l0, ?s0)) ! source (fst (?l0, ?s0)))"
    by (simp add: cogl_pipeline_get_real_blend_enabled_def)
  from enable_attributes_keeps_source [OF this, of attrs] loop
  have k: "pipelines s1 = pipelines s" "source l1 = p" "copy l1 = None"
    by simp_all
  from enable_attributes_frame [of attrs "(?l0, ?s0)"] loop
  have fr: "source_stack s1 = source_stack s" "legacy_state_set s1 = legacy_state_set s"
    by simp_all
  show ?thesis
    using src lt loop k fr nofl noleg
    by (simp add: enable_gl_state_def Let_def emit_def cogl_get_source_def)
qed

text \<open>C4, at a concrete input: the same draw as before, but with a pipeline that
  already blends. The source is returned and there is still one pipeline.\<close>

theorem enable_gl_state_reuses_blending_pipeline_witness:
  "cogl_get_source (example_state\<lparr>pipelines := [example_pipeline\<lparr>real_blend_enable := True\<rparr>]\<rparr>)
     = Some 0
   \<and> cogl_pipeline_get_real_blend_enabled 0
       (example_state\<lparr>pipelines := [example_pipeline\<lparr>real_blend_enable := True\<rparr>]\<rparr>)
   \<and> flags (options initial_validate_state) = {}
   \<and> \<not> legacy_state_set
       (example_state\<lparr>pipelines := [example_pipeline\<lparr>real_blend_enable := True\<rparr>]\<rparr>)
   \<and> map_option fst (enable_gl_state [example_attribute, example_color] initial_validate_state
        (example_state\<lparr>pipelines := [example_pipeline\<lparr>real_blend_enable := True\<rparr>]\<rparr>))
       = Some 0
   \<and> map_option (\<lambda>r. length (pipelines (snd r)))
        (enable_gl_state [example_attribute, example_color] initial_validate_state
          (example_state\<lparr>pipelines := [example_pipeline\<lparr>real_blend_enable := True\<rparr>]\<rparr>))
       = Some 1"
proof -
  let ?s = "example_state\<lparr>pipelines := [example_pipeline\<lparr>real_blend_enable := True\<rparr>]\<rparr>"
  have h: "cogl_get_source ?s = Some 0" "0 < length (pipelines ?s)"
      "cogl_pipeline_get_real_blend_enabled 0 ?s"
      "flags (options initial_validate_state) = {}" "\<not> legacy_state_set ?s"
    by (simp_all add: example_state_def cogl_get_source_def initial_validate_state_def
        cogl_pipeline_get_real_blend_enabled_def)
  from enable_gl_state_reuses_blending_pipeline [OF h, of "[example_attribute, example_color]"]
  obtain s' where "enable_gl_state [example_attribute, example_color] initial_validate_state ?s
      = Some (0, s')" and "pipelines s' = pipelines ?s"
    by blast
  with h show ?thesis by simp
qed

subsection \<open>Generic attribute channels\<close>

text \<open>The pass of the loop for a CUSTOM attribute: the array is enabled at the
  current \<open>generic_index\<close>, which is incremented in the same expression, and the
  pointer is then set at the incremented index.\<close>

lemma enable_attribute_custom:
  "name_id a = COGL_VERTEX_ATTRIBUTE_NAME_ID_CUSTOM_ARRAY \<Longrightarrow>
   enable_attribute a (l, s) =
     (l\<lparr>generic_index := generic_index l + 1\<rparr>,
      emit [cogl_buffer_bind (array a) COGL_BUFFER_BIND_TARGET_VERTEX_ARRAY,
            glEnableVertexAttribArray (generic_index l),
            glVertexAttribPointer (generic_index l + 1) (n_components a) (type a)
              (normalized a) (stride a) (bind_address s (array a) + offset a),
            cogl_buffer_unbind (array a)] s)"
  by (simp add: enable_attribute_def Let_def emit_def)

text \<open>C2, on the code: two CUSTOM attributes are flushed. The first is enabled at
  generic index 0 but its pointer is bound at index 1; the second is enabled at 1
  and bound at 2. \<^verbatim>\<open>disable_gl_state\<close> disables the indices 0 and 1.\<close>

theorem custom_attribute_generic_indices:
  "map_option (\<lambda>r. calls (snd r))
     (enable_gl_state [example_custom, example_custom] initial_validate_state example_state)
   = Some [cogl_buffer_bind 0 COGL_BUFFER_BIND_TARGET_VERTEX_ARRAY,
           glEnableVertexAttribArray 0,
           glVertexAttribPointer 1 1 COGL_VERTEX_ATTRIBUTE_TYPE_FLOAT False 16 8,
           cogl_buffer_unbind 0,
           cogl_buffer_bind 0 COGL_BUFFER_BIND_TARGET_VERTEX_ARRAY,
           glEnableVertexAttribArray 1,
           glVertexAttribPointer 2 1 COGL_VERTEX_ATTRIBUTE_TYPE_FLOAT False 16 8,
           cogl_buffer_unbind 0,
           cogl_disable_other_texcoord_arrays {},
           cogl_pipeline_flush_gl_state 0 False,
           cogl_enable {},
           cogl_flush_face_winding]
   \<and> calls (disable_gl_state [example_custom, example_custom] 0 example_state)
     = [glDisableVertexAttribArray 0, glDisableVertexAttribArray 1]"
  by (simp add: enable_gl_state_def enable_attribute_def disable_gl_state_def
      disable_attribute_def Let_def emit_def cogl_get_source_def example_state_def
      example_custom_def example_pipeline_def initial_validate_state_def)

subsection \<open>Draw calls\<close>

lemma enable_attribute_draw_calls:
  "draw_calls (snd (enable_attribute a ls)) = draw_calls (snd ls)
   \<and> bind_address (snd (enable_attribute a ls)) = bind_address (snd ls)"
  by (cases ls)
    (auto simp: draw_calls_def is_draw_call_def enable_attribute_def Let_def emit_def
      cogl_pipeline_copy_def cogl_pipeline_set_blend_enabled_def update_pipeline_def
      split: CoglVertexAttributeNameID.splits)

lemma enable_attributes_draw_calls:
  "draw_calls (snd (enable_attributes as ls)) = draw_calls (snd ls)
   \<and> bind_address (snd (enable_attributes as ls)) = bind_address (snd ls)"
  by (induction as arbitrary: ls) (simp_all add: enable_attribute_draw_calls)

lemma enable_gl_state_succeeds:
  "cogl_get_source s = Some p \<Longrightarrow> p < length (pipelines s) \<Longrightarrow>
   enable_gl_state attrs state s \<noteq> None"
  by (simp add: enable_gl_state_def Let_def case_prod_unfold)

lemma enable_gl_state_None:
  "enable_gl_state attrs state s = None \<longleftrightarrow>
     (case cogl_get_source s of None \<Rightarrow> True | Some p \<Rightarrow> \<not> p < length (pipelines s))"
  by (simp add: enable_gl_state_def Let_def case_prod_unfold split: option.splits)

lemma enable_gl_state_draw_calls:
  assumes "enable_gl_state attrs state s = Some (q, s')"
  shows "draw_calls s' = draw_calls s \<and> bind_address s' = bind_address s
       \<and> debug_wireframe s' = debug_wireframe s \<and> source_stack s' = source_stack s"
proof -
  from assms obtain p where p: "cogl_get_source s = Some p" "p < length (pipelines s)"
    by (auto simp: enable_gl_state_def split: option.splits if_splits)
  let ?l0 = "\<lparr>generic_index = 0, enable_flags = {}, skip_gl_color = False,
              source = p, copy = None\<rparr>"
  let ?s0 = "s\<lparr>temp_bitmask := {}\<rparr>"
  obtain l1 s1 where loop: "enable_attributes attrs (?l0, ?s0) = (l1, s1)"
    by (cases "enable_attributes attrs (?l0, ?s0)")
  from enable_attributes_draw_calls [of attrs "(?l0, ?s0)"] loop
  have a: "draw_calls s1 = draw_calls s" "bind_address s1 = bind_address s"
    by (simp_all add: draw_calls_def)
  from enable_attributes_frame [of attrs "(?l0, ?s0)"] loop
  have b: "source_stack s1 = source_stack s" "debug_wireframe s1 = debug_wireframe s"
    by simp_all
  from a have a': "filter is_draw_call (calls s1) = filter is_draw_call (calls s)"
    by (simp add: draw_calls_def)
  from assms p loop a' a(2) b show ?thesis
    by (auto simp: enable_gl_state_def Let_def emit_def draw_calls_def is_draw_call_def
        cogl_pipeline_apply_overrides_def cogl_pipeline_apply_legacy_state_def
        cogl_pipeline_copy_def update_pipeline_def split: if_splits)
qed

lemma disable_attribute_draw_calls:
  "draw_calls (snd (disable_attribute a gs)) = draw_calls (snd gs)
   \<and> debug_wireframe (snd (disable_attribute a gs)) = debug_wireframe (snd gs)
   \<and> source_stack (snd (disable_attribute a gs)) = source_stack (snd gs)"
  by (cases gs)
    (auto simp: draw_calls_def is_draw_call_def disable_attribute_def emit_def
      split: CoglVertexAttributeNameID.splits)

lemma disable_attributes_draw_calls:
  "draw_calls (snd (disable_attributes as gs)) = draw_calls (snd gs)
   \<and> debug_wireframe (snd (disable_attributes as gs)) = debug_wireframe (snd gs)
   \<and> source_stack (snd (disable_attributes as gs)) = source_stack (snd gs)"
  by (induction as arbitrary: gs) (simp_all add: disable_attribute_draw_calls)

lemma disable_gl_state_draw_calls:
  "draw_calls (disable_gl_state attrs q s) = draw_calls s
   \<and> debug_wireframe (disable_gl_state attrs q s) = debug_wireframe s
   \<and> source_stack (disable_gl_state attrs q s) = source_stack s"
  by (simp add: disable_gl_state_def Let_def disable_attributes_draw_calls)
    (simp add: draw_calls_def cogl_object_unref_pipeline_def update_pipeline_def)

lemma draw_arrays_flushed_draw_calls:
  assumes "draw_arrays_flushed mode first n attrs state s = Some s'"
  shows "draw_calls s' = draw_calls s @ [glDrawArrays mode first n]
       \<and> debug_wireframe s' = debug_wireframe s \<and> source_stack s' = source_stack s"
proof -
  from assms obtain q s1 where e: "enable_gl_state attrs state s = Some (q, s1)"
    and s': "s' = disable_gl_state attrs q (emit [glDrawArrays mode first n] s1)"
    by (auto simp: draw_arrays_flushed_def split: option.splits)
  from enable_gl_state_draw_calls [OF e] s' show ?thesis
    by (simp add: disable_gl_state_draw_calls) (simp add: draw_calls_def emit_def is_draw_call_def)
qed


subsection \<open>Wireframe reconstruction\<close>

lemma add_line_count: "snd (add_line m v ix ty a st fin ln) = snd ln + 2"
  by (cases ln) (simp add: add_line_def Let_def)

lemma wire_triangles_count:
  "(\<And>a b acc. snd (line a b acc) = snd acc + 2) \<Longrightarrow> i \<le> n \<Longrightarrow> (n - i) mod 3 = 0 \<Longrightarrow>
   snd (wire_triangles line i n acc) = snd acc + 2 * (n - i)"
proof (induction line i n acc rule: wire_triangles.induct)
  case (1 line i n acc)
  show ?case
  proof (cases "i < n")
    case True
    with "1.prems" have le: "i + 3 \<le> n" and md: "(n - (i + 3)) mod 3 = 0"
      by presburger+
    from "1.IH" [OF True "1.prems"(1) le md] "1.prems"(1) True show ?thesis
      by (subst wire_triangles.simps) simp
  next
    case False
    with "1.prems" show ?thesis by (subst wire_triangles.simps) simp
  qed
qed

lemma wire_quads_count:
  "(\<And>a b acc. snd (line a b acc) = snd acc + 2) \<Longrightarrow> i \<le> n \<Longrightarrow> (n - i) mod 4 = 0 \<Longrightarrow>
   snd (wire_quads line i n acc) = snd acc + 2 * (n - i)"
proof (induction line i n acc rule: wire_quads.induct)
  case (1 line i n acc)
  show ?case
  proof (cases "i < n")
    case True
    with "1.prems" have le: "i + 4 \<le> n" and md: "(n - (i + 4)) mod 4 = 0"
      by presburger+
    from "1.IH" [OF True "1.prems"(1) le md] "1.prems"(1) True show ?thesis
      by (subst wire_quads.simps) simp
  next
    case False
    with "1.prems" show ?thesis by (subst wire_quads.simps) simp
  qed
qed

lemma wire_triangle_fan_count:
  "(\<And>a b acc. snd (line a b acc) = snd acc + 2) \<Longrightarrow> i \<le> n \<Longrightarrow>
   snd (wire_triangle_fan line i n acc) = snd acc + 4 * (n - i)"
proof (induction line i n acc rule: wire_triangle_fan.induct)
  case (1 line i n acc)
  show ?case
  proof (cases "i < n")
    case True
    then have le: "i + 1 \<le> n" by simp
    from "1.IH" [OF True "1.prems"(1) le] "1.prems"(1) True show ?thesis
      by (subst wire_triangle_fan.simps) simp
  next
    case False
    with "1.prems" show ?thesis by (subst wire_triangle_fan.simps) simp
  qed
qed

lemma wire_triangle_strip_count:
  "(\<And>a b acc. snd (line a b acc) = snd acc + 2) \<Longrightarrow> i \<le> n \<Longrightarrow>
   snd (wire_triangle_strip line i n acc) = snd acc + 4 * (n - i)"
proof (induction line i n acc rule: wire_triangle_strip.induct)
  case (1 line i n acc)
  show ?case
  proof (cases "i < n")
    case True
    then have le: "i + 1 \<le> n" by simp
    from "1.IH" [OF True "1.prems"(1) le] "1.prems"(1) True show ?thesis
      by (subst wire_triangle_strip.simps) simp
  next
    case False
    with "1.prems" show ?thesis by (subst wire_triangle_strip.simps) simp
  qed
qed


lemma get_wire_lines_triangles:
  "n mod 3 = 0 \<Longrightarrow> 0 \<le> n \<Longrightarrow>
   snd (fst (get_wire_lines a COGL_VERTICES_MODE_TRIANGLES n ix s)) = 2 * n"
  by (simp add: get_wire_lines_def Let_def case_prod_unfold wire_triangles_count add_line_count)

lemma get_wire_lines_triangle_fan:
  "3 \<le> n \<Longrightarrow>
   snd (fst (get_wire_lines a COGL_VERTICES_MODE_TRIANGLE_FAN n ix s)) = 2 * (2 * n - 3)"
  by (simp add: get_wire_lines_def Let_def case_prod_unfold wire_triangle_fan_count add_line_count)

lemma get_wire_lines_triangle_strip:
  "3 \<le> n \<Longrightarrow>
   snd (fst (get_wire_lines a COGL_VERTICES_MODE_TRIANGLE_STRIP n ix s)) = 2 * (2 * n - 3)"
  by (simp add: get_wire_lines_def Let_def case_prod_unfold wire_triangle_strip_count add_line_count)

lemma get_wire_lines_quads:
  "n mod 4 = 0 \<Longrightarrow> 0 \<le> n \<Longrightarrow>
   snd (fst (get_wire_lines a GL_QUADS n ix s)) = 2 * n"
  by (simp add: get_wire_lines_def Let_def case_prod_unfold wire_quads_count add_line_count)

lemma get_wire_lines_out_None:
  "\<not> (mode = COGL_VERTICES_MODE_TRIANGLES \<and> n mod 3 = 0) \<Longrightarrow>
   \<not> (mode = COGL_VERTICES_MODE_TRIANGLE_FAN \<and> 3 \<le> n) \<Longrightarrow>
   \<not> (mode = COGL_VERTICES_MODE_TRIANGLE_STRIP \<and> 3 \<le> n) \<Longrightarrow>
   \<not> (mode = GL_QUADS \<and> n mod 4 = 0) \<Longrightarrow>
   fst (get_wire_lines a mode n ix s) = (None, 0)"
  by (simp add: get_wire_lines_def Let_def case_prod_unfold)

lemma get_wire_lines_frame:
  "draw_calls (snd (get_wire_lines a mode n ix s)) = draw_calls s
   \<and> source_stack (snd (get_wire_lines a mode n ix s)) = source_stack s
   \<and> pipelines (snd (get_wire_lines a mode n ix s)) = pipelines s
   \<and> wire_pipeline (snd (get_wire_lines a mode n ix s)) = wire_pipeline s"
  by (simp add: get_wire_lines_def Let_def case_prod_unfold draw_calls_def emit_def
      is_draw_call_def split: option.splits)


lemma draw_arrays_flushed_None:
  "draw_arrays_flushed mode first n attrs state s = None \<longleftrightarrow>
     (case cogl_get_source s of None \<Rightarrow> True | Some p \<Rightarrow> \<not> p < length (pipelines s))"
proof -
  have "draw_arrays_flushed mode first n attrs state s = None
          \<longleftrightarrow> enable_gl_state attrs state s = None"
    by (cases "enable_gl_state attrs state s") (auto simp: draw_arrays_flushed_def)
  then show ?thesis by (simp add: enable_gl_state_None)
qed

text \<open>\<^verbatim>\<open>draw_wireframe\<close> with a position attribute, reduced to its nested draw:
  the state \<open>t\<close> in which that draw is issued has the draw calls of the start
  and, when the wire pipeline is unset or valid, a source pipeline.\<close>

lemma draw_wireframe_unfold:
  assumes pos: "find (\<lambda>a. name a = ''cogl_position_in'') attrs = Some position"
  shows "\<exists>t wire_attribute wire.
           draw_calls t = draw_calls s
         \<and> (wire_pipeline_ok s \<longrightarrow>
              (\<exists>p. cogl_get_source t = Some p \<and> p < length (pipelines t)))
         \<and> draw_wireframe mode first n attrs ix s =
             (case draw_arrays_flushed COGL_VERTICES_MODE_LINES 0
                     (snd (fst (get_wire_lines position mode n ix s)))
                     wire_attribute initial_validate_state t of
                None \<Rightarrow> None
              | Some s8 \<Rightarrow>
                  Some (case wire of
                          None \<Rightarrow> cogl_pop_source (s8\<lparr>debug_wireframe := True\<rparr>)
                        | Some h \<Rightarrow> cogl_object_unref_attribute h
                                     (cogl_pop_source (s8\<lparr>debug_wireframe := True\<rparr>))))"
proof -
  obtain lines nlv s1 where g: "get_wire_lines position mode n ix s = ((lines, nlv), s1)"
    by (metis prod.exhaust)
  from get_wire_lines_frame [of position mode n ix s] g
  have f1: "draw_calls s1 = draw_calls s" "pipelines s1 = pipelines s"
      "wire_pipeline s1 = wire_pipeline s"
    by simp_all
  obtain arr s2 where a: "cogl_vertex_array_new (12 * of_int nlv) s1 = (arr, s2)"
    by (metis prod.exhaust)
  then have f2: "calls s2 = calls s1" "pipelines s2 = pipelines s1"
      "wire_pipeline s2 = wire_pipeline s1"
    by (auto simp: cogl_vertex_array_new_def)
  obtain wire s3 where w: "cogl_vertex_attribute_new arr ''cogl_position_in'' 12 0 3
                  COGL_VERTEX_ATTRIBUTE_TYPE_FLOAT s2 = (wire, s3)"
    by (metis prod.exhaust)
  then have f3: "calls s3 = calls s2" "pipelines s3 = pipelines s2"
      "wire_pipeline s3 = wire_pipeline s2"
    by (auto simp: cogl_vertex_attribute_new_def validate_position_in Let_def
        cogl_object_ref_array_def)
  let ?s4 = "cogl_object_unref_array arr s3"
  have f4: "calls ?s4 = calls s3" "pipelines ?s4 = pipelines s3"
      "wire_pipeline ?s4 = wire_pipeline s3"
    by (simp_all add: cogl_object_unref_array_def)
  let ?ws = "(case wire_pipeline ?s4 of
                    Some p \<Rightarrow> (p, ?s4)
                  | None \<Rightarrow>
                      (case cogl_pipeline_new ?s4 of (p, t) \<Rightarrow>
                         (p, (cogl_pipeline_set_color4ub p 0 255 0 255 t)
                               \<lparr>wire_pipeline := Some p\<rparr>)))"
  have f5: "calls (snd ?ws) = calls ?s4"
      "wire_pipeline_ok s \<longrightarrow> fst ?ws < length (pipelines (snd ?ws))"
    using f1 f2 f3 f4
    by (auto simp: cogl_pipeline_new_def cogl_pipeline_set_color4ub_def
        update_pipeline_def wire_pipeline_ok_def split: option.splits)
  let ?s7 = "(cogl_push_source (fst ?ws) (snd ?ws))\<lparr>debug_wireframe := False\<rparr>"
  have f7: "draw_calls ?s7 = draw_calls s" "cogl_get_source ?s7 = Some (fst ?ws)"
      "pipelines ?s7 = pipelines (snd ?ws)"
    using f1 f2 f3 f4 f5(1)
    by (simp_all add: cogl_push_source_def cogl_get_source_def draw_calls_def)
  let ?wa = "(case wire of
                    None \<Rightarrow> []
                  | Some h \<Rightarrow> (case attributes ?s7 h of None \<Rightarrow> [] | Some a \<Rightarrow> [a]))"
  have u: "draw_wireframe mode first n attrs ix s =
             (case draw_arrays_flushed COGL_VERTICES_MODE_LINES 0 nlv ?wa
                     initial_validate_state ?s7 of
                None \<Rightarrow> None
              | Some s8 \<Rightarrow>
                  Some (case wire of
                          None \<Rightarrow> cogl_pop_source (s8\<lparr>debug_wireframe := True\<rparr>)
                        | Some h \<Rightarrow> cogl_object_unref_attribute h
                                     (cogl_pop_source (s8\<lparr>debug_wireframe := True\<rparr>))))"
    unfolding draw_wireframe_def Let_def case_prod_unfold pos g a w option.case fst_conv snd_conv
    by (rule refl)
  from f5(2) f7 have ok: "wire_pipeline_ok s \<longrightarrow>
      (\<exists>p. cogl_get_source ?s7 = Some p \<and> p < length (pipelines ?s7))"
    by simp
  from g have n: "snd (fst (get_wire_lines position mode n ix s)) = nlv" by simp
  show ?thesis
    apply (rule exI [of _ ?s7])
    apply (rule exI [of _ ?wa])
    apply (rule exI [of _ wire])
    apply (intro conjI)
      apply (rule f7(1))
     apply (rule ok)
    apply (subst n)
    apply (rule u)
    done
qed

lemma pop_unref_draw_calls:
  "draw_calls (cogl_pop_source (s\<lparr>debug_wireframe := True\<rparr>)) = draw_calls s
   \<and> draw_calls (cogl_object_unref_attribute h (cogl_pop_source (s\<lparr>debug_wireframe := True\<rparr>)))
       = draw_calls s"
  by (simp add: draw_calls_def cogl_pop_source_def cogl_object_unref_attribute_def
      cogl_vertex_attribute_free_def cogl_object_unref_array_def split: option.splits)

lemma draw_wireframe_draw_calls:
  assumes pos: "find (\<lambda>a. name a = ''cogl_position_in'') attrs = Some position"
    and r: "draw_wireframe mode first n attrs ix s = Some s'"
  shows "draw_calls s' = draw_calls s
           @ [glDrawArrays COGL_VERTICES_MODE_LINES 0
                (snd (fst (get_wire_lines position mode n ix s)))]"
proof -
  from draw_wireframe_unfold [OF pos, of s mode first n ix]
  obtain t wa wire where t: "draw_calls t = draw_calls s"
    and u: "draw_wireframe mode first n attrs ix s =
             (case draw_arrays_flushed COGL_VERTICES_MODE_LINES 0
                     (snd (fst (get_wire_lines position mode n ix s)))
                     wa initial_validate_state t of
                None \<Rightarrow> None
              | Some s8 \<Rightarrow>
                  Some (case wire of
                          None \<Rightarrow> cogl_pop_source (s8\<lparr>debug_wireframe := True\<rparr>)
                        | Some h \<Rightarrow> cogl_object_unref_attribute h
                                     (cogl_pop_source (s8\<lparr>debug_wireframe := True\<rparr>))))"
    by blast
  from u r obtain s8 where d: "draw_arrays_flushed COGL_VERTICES_MODE_LINES 0
                     (snd (fst (get_wire_lines position mode n ix s)))
                     wa initial_validate_state t = Some s8"
    and s': "s' = (case wire of
                          None \<Rightarrow> cogl_pop_source (s8\<lparr>debug_wireframe := True\<rparr>)
                        | Some h \<Rightarrow> cogl_object_unref_attribute h
                                     (cogl_pop_source (s8\<lparr>debug_wireframe := True\<rparr>)))"
    by (cases "draw_arrays_flushed COGL_VERTICES_MODE_LINES 0
                     (snd (fst (get_wire_lines position mode n ix s)))
                     wa initial_validate_state t") simp_all
  from draw_arrays_flushed_draw_calls [OF d] t s' show ?thesis
    by (simp add: pop_unref_draw_calls split: option.splits)
qed

lemma draw_wireframe_succeeds:
  assumes ok: "wire_pipeline_ok s"
  shows "draw_wireframe mode first n attrs ix s \<noteq> None"
proof (cases "find (\<lambda>a. name a = ''cogl_position_in'') attrs")
  case None
  then show ?thesis by (simp add: draw_wireframe_def)
next
  case (Some position)
  from draw_wireframe_unfold [OF Some, of s mode first n ix] ok
  obtain t wa wire p where p: "cogl_get_source t = Some p" "p < length (pipelines t)"
    and u: "draw_wireframe mode first n attrs ix s =
             (case draw_arrays_flushed COGL_VERTICES_MODE_LINES 0
                     (snd (fst (get_wire_lines position mode n ix s)))
                     wa initial_validate_state t of
                None \<Rightarrow> None
              | Some s8 \<Rightarrow>
                  Some (case wire of
                          None \<Rightarrow> cogl_pop_source (s8\<lparr>debug_wireframe := True\<rparr>)
                        | Some h \<Rightarrow> cogl_object_unref_attribute h
                                     (cogl_pop_source (s8\<lparr>debug_wireframe := True\<rparr>))))"
    by blast
  from p have "draw_arrays_flushed COGL_VERTICES_MODE_LINES 0
                     (snd (fst (get_wire_lines position mode n ix s)))
                     wa initial_validate_state t \<noteq> None"
    by (simp add: draw_arrays_flushed_None)
  with u show ?thesis by (auto split: option.splits)
qed


text \<open>Frame facts for the indexed draw.\<close>

lemma filter_draw_elements:
  "filter is_draw_elements (calls s) = filter is_draw_elements (draw_calls s)"
proof -
  have "\<And>c. (is_draw_call c \<and> is_draw_elements c) = is_draw_elements c"
    by (auto simp: is_draw_call_def is_draw_elements_def split: call.splits)
  then show ?thesis by (simp add: draw_calls_def)
qed

lemma enable_attribute_wire_ok:
  "wire_pipeline (snd (enable_attribute a ls)) = wire_pipeline (snd ls)
   \<and> length (pipelines (snd ls)) \<le> length (pipelines (snd (enable_attribute a ls)))"
  by (cases ls)
    (auto simp: enable_attribute_def Let_def emit_def
      cogl_pipeline_copy_def cogl_pipeline_set_blend_enabled_def update_pipeline_def
      split: CoglVertexAttributeNameID.splits)

lemma enable_attributes_wire_ok:
  "wire_pipeline (snd (enable_attributes as ls)) = wire_pipeline (snd ls)
   \<and> length (pipelines (snd ls)) \<le> length (pipelines (snd (enable_attributes as ls)))"
proof (induction as arbitrary: ls)
  case Nil
  then show ?case by simp
next
  case (Cons a as)
  from Cons.IH [of "enable_attribute a ls"] enable_attribute_wire_ok [of a ls]
  show ?case by simp
qed

lemma enable_gl_state_wire_ok:
  assumes "enable_gl_state attrs state s = Some (q, s')"
  shows "wire_pipeline s' = wire_pipeline s \<and> length (pipelines s) \<le> length (pipelines s')"
proof -
  from assms obtain p where p: "cogl_get_source s = Some p" "p < length (pipelines s)"
    by (auto simp: enable_gl_state_def split: option.splits if_splits)
  let ?l0 = "\<lparr>generic_index = 0, enable_flags = {}, skip_gl_color = False,
              source = p, copy = None\<rparr>"
  let ?s0 = "s\<lparr>temp_bitmask := {}\<rparr>"
  obtain l1 s1 where loop: "enable_attributes attrs (?l0, ?s0) = (l1, s1)"
    by (cases "enable_attributes attrs (?l0, ?s0)")
  from enable_attributes_wire_ok [of attrs "(?l0, ?s0)"] loop
  have a: "wire_pipeline s1 = wire_pipeline s" "length (pipelines s) \<le> length (pipelines s1)"
    by simp_all
  from assms p loop a show ?thesis
    by (auto simp: enable_gl_state_def Let_def emit_def
        cogl_pipeline_apply_overrides_def cogl_pipeline_apply_legacy_state_def
        cogl_pipeline_copy_def update_pipeline_def split: if_splits)
qed

lemma disable_attributes_wire_ok:
  "wire_pipeline (snd (disable_attributes as gs)) = wire_pipeline (snd gs)
   \<and> pipelines (snd (disable_attributes as gs)) = pipelines (snd gs)"
proof (induction as arbitrary: gs)
  case Nil
  then show ?case by simp
next
  case (Cons a as)
  have "wire_pipeline (snd (disable_attribute a gs)) = wire_pipeline (snd gs)
      \<and> pipelines (snd (disable_attribute a gs)) = pipelines (snd gs)"
    by (cases gs) (auto simp: disable_attribute_def emit_def split: CoglVertexAttributeNameID.splits)
  with Cons.IH [of "disable_attribute a gs"] show ?case by simp
qed

lemma disable_gl_state_wire_ok:
  "wire_pipeline_ok s \<Longrightarrow> wire_pipeline_ok (disable_gl_state attrs q s)"
  by (simp add: disable_gl_state_def Let_def disable_attributes_wire_ok wire_pipeline_ok_def
      cogl_object_unref_pipeline_def update_pipeline_def split: option.splits)

text \<open>The indexed draw up to its debug block.\<close>

lemma draw_indexed_unfold:
  assumes e: "enable_gl_state attrs state s = Some (q, s1)"
  shows "\<exists>s5. cogl_draw_indexed_vertex_attributes_array_real mode first n ix attrs state s
            = (if debug_wireframe s then draw_wireframe mode first n attrs (Some ix) s5
               else Some s5)
         \<and> draw_calls s5 = draw_calls s
             @ [glDrawElements mode n
                 (case index_type ix of
                    COGL_INDICES_TYPE_UNSIGNED_BYTE \<Rightarrow> GL_UNSIGNED_BYTE
                  | COGL_INDICES_TYPE_UNSIGNED_SHORT \<Rightarrow> GL_UNSIGNED_SHORT
                  | COGL_INDICES_TYPE_UNSIGNED_INT \<Rightarrow> GL_UNSIGNED_INT)
                 (bind_address s (index_array ix) + index_offset ix
                    + sizeof_index_type (index_type ix) * of_int first)]
         \<and> (wire_pipeline_ok s \<longrightarrow> wire_pipeline_ok s5)"
proof -
  let ?d = "glDrawElements mode n
                 (case index_type ix of
                    COGL_INDICES_TYPE_UNSIGNED_BYTE \<Rightarrow> GL_UNSIGNED_BYTE
                  | COGL_INDICES_TYPE_UNSIGNED_SHORT \<Rightarrow> GL_UNSIGNED_SHORT
                  | COGL_INDICES_TYPE_UNSIGNED_INT \<Rightarrow> GL_UNSIGNED_INT)
                 (bind_address s1 (index_array ix) + index_offset ix
                    + sizeof_index_type (index_type ix) * of_int first)"
  let ?s4 = "emit [cogl_buffer_unbind (index_array ix)]
               (emit [?d]
                 (emit [cogl_buffer_bind (index_array ix) COGL_BUFFER_BIND_TARGET_INDEX_ARRAY] s1))"
  let ?s5 = "disable_gl_state attrs q ?s4"
  from enable_gl_state_draw_calls [OF e]
  have f: "draw_calls s1 = draw_calls s" "bind_address s1 = bind_address s"
      "debug_wireframe s1 = debug_wireframe s"
    by simp_all
  have dbg: "debug_wireframe ?s5 = debug_wireframe s"
    using f(3) by (simp add: disable_gl_state_draw_calls) (simp add: emit_def)
  have u: "cogl_draw_indexed_vertex_attributes_array_real mode first n ix attrs state s
            = (if debug_wireframe s then draw_wireframe mode first n attrs (Some ix) ?s5
               else Some ?s5)"
    unfolding cogl_draw_indexed_vertex_attributes_array_real_def Let_def e option.case
      prod.case dbg
    by (rule refl)
  have dc: "draw_calls ?s5 = draw_calls s @ [?d]"
    using f(1)
    by (simp add: disable_gl_state_draw_calls)
      (simp add: draw_calls_def emit_def is_draw_call_def)
  have ok: "wire_pipeline_ok s \<longrightarrow> wire_pipeline_ok ?s5"
  proof
    assume "wire_pipeline_ok s"
    with enable_gl_state_wire_ok [OF e] have "wire_pipeline_ok ?s4"
      by (auto simp: wire_pipeline_ok_def emit_def split: option.splits)
    then show "wire_pipeline_ok ?s5" by (rule disable_gl_state_wire_ok)
  qed
  from u dc ok f(2) show ?thesis by auto
qed


subsection \<open>Wireframe segments and the overlay draw\<close>

text \<open>C7 (amended). \<^verbatim>\<open>get_wire_lines\<close> writes two vertices per line segment. For a
  6-vertex TRIANGLES draw it writes 12, that is 6 segments; for a 5-vertex
  TRIANGLE_FAN 14, that is 7 segments; in general \<open>n\<close> segments for TRIANGLES with
  \<open>n\<close> a non-negative multiple of 3 and \<open>2n - 3\<close> for a fan of \<open>n \<ge> 3\<close> vertices.
  For any other topology, or a vertex count that breaks the topology's constraint,
  it writes none and assigns no array. In that case \<^verbatim>\<open>draw_wireframe\<close>, when the
  attributes hold \<^verbatim>\<open>cogl_position_in\<close>, still issues its overlay draw call, over zero
  vertices: \<^verbatim>\<open>glDrawArrays (GL_LINES, 0, 0)\<close>.\<close>

theorem wireframe_segments:
  "snd (fst (get_wire_lines a COGL_VERTICES_MODE_TRIANGLES 6 ix s)) = 2 * 6
   \<and> snd (fst (get_wire_lines a COGL_VERTICES_MODE_TRIANGLE_FAN 5 ix s)) = 2 * 7
   \<and> (n mod 3 = 0 \<and> 0 \<le> n \<longrightarrow>
        snd (fst (get_wire_lines a COGL_VERTICES_MODE_TRIANGLES n ix s)) = 2 * n)
   \<and> (3 \<le> n \<longrightarrow>
        snd (fst (get_wire_lines a COGL_VERTICES_MODE_TRIANGLE_FAN n ix s)) = 2 * (2 * n - 3))
   \<and> (wire_unsupported mode n \<longrightarrow> fst (get_wire_lines a mode n ix s) = (None, 0))
   \<and> (wire_unsupported mode n
        \<and> find (\<lambda>a. name a = ''cogl_position_in'') attrs \<noteq> None
        \<and> draw_wireframe mode first n attrs ix s = Some s'
        \<longrightarrow> draw_calls s' = draw_calls s @ [glDrawArrays COGL_VERTICES_MODE_LINES 0 0])
   \<and> (wire_pipeline_ok s \<longrightarrow> draw_wireframe mode first n attrs ix s \<noteq> None)"
proof -
  have six: "snd (fst (get_wire_lines a COGL_VERTICES_MODE_TRIANGLES 6 ix s)) = 2 * 6"
    by (rule get_wire_lines_triangles) simp_all
  have fan: "snd (fst (get_wire_lines a COGL_VERTICES_MODE_TRIANGLE_FAN 5 ix s)) = 2 * 7"
    using get_wire_lines_triangle_fan [of 5 a ix s] by simp
  have none: "wire_unsupported mode n \<longrightarrow> fst (get_wire_lines a mode n ix s) = (None, 0)"
    by (simp add: wire_unsupported_def get_wire_lines_out_None)
  have draw: "wire_unsupported mode n
        \<and> find (\<lambda>a. name a = ''cogl_position_in'') attrs \<noteq> None
        \<and> draw_wireframe mode first n attrs ix s = Some s'
        \<longrightarrow> draw_calls s' = draw_calls s @ [glDrawArrays COGL_VERTICES_MODE_LINES 0 0]"
  proof (intro impI, elim conjE)
    assume u: "wire_unsupported mode n"
      and f: "find (\<lambda>a. name a = ''cogl_position_in'') attrs \<noteq> None"
      and r: "draw_wireframe mode first n attrs ix s = Some s'"
    from f obtain position where p: "find (\<lambda>a. name a = ''cogl_position_in'') attrs = Some position"
      by auto
    from u have "fst (get_wire_lines position mode n ix s) = (None, 0)"
      by (simp add: wire_unsupported_def get_wire_lines_out_None)
    with draw_wireframe_draw_calls [OF p r]
    show "draw_calls s' = draw_calls s @ [glDrawArrays COGL_VERTICES_MODE_LINES 0 0]"
      by simp
  qed
  from six fan none draw show ?thesis
    by (simp add: get_wire_lines_triangles get_wire_lines_triangle_fan draw_wireframe_succeeds)
qed

text \<open>C7 (amended), at concrete inputs: a strip of 2 vertices is below the strip's
  minimum; nothing is written for it, \<^verbatim>\<open>draw_wireframe\<close> returns, and the one draw
  call it has issued is the overlay draw over zero vertices. Nine vertices as
  TRIANGLES give 9 segments.\<close>

theorem wireframe_segments_witness:
  "wire_unsupported COGL_VERTICES_MODE_TRIANGLE_STRIP 2
   \<and> find (\<lambda>a. name a = ''cogl_position_in'') [example_color, example_attribute] \<noteq> None
   \<and> wire_pipeline_ok example_state
   \<and> (9::int) mod 3 = 0
   \<and> snd (fst (get_wire_lines example_attribute COGL_VERTICES_MODE_TRIANGLES 9 None
        example_state)) = 2 * 9
   \<and> fst (get_wire_lines example_attribute COGL_VERTICES_MODE_TRIANGLE_STRIP 2 None
        example_state) = (None, 0)
   \<and> map_option draw_calls (draw_wireframe COGL_VERTICES_MODE_TRIANGLE_STRIP 0 2
        [example_color, example_attribute] None example_state)
       = Some [glDrawArrays COGL_VERTICES_MODE_LINES 0 0]"
proof -
  let ?r = "draw_wireframe COGL_VERTICES_MODE_TRIANGLE_STRIP 0 2
        [example_color, example_attribute] None example_state"
  have h: "wire_unsupported COGL_VERTICES_MODE_TRIANGLE_STRIP 2"
      "find (\<lambda>a. name a = ''cogl_position_in'') [example_color, example_attribute] \<noteq> None"
      "wire_pipeline_ok example_state" "(9::int) mod 3 = 0" "draw_calls example_state = []"
    by (simp_all add: wire_unsupported_def example_color_def example_attribute_def
        wire_pipeline_ok_def example_state_def draw_calls_def)
  from wireframe_segments [of example_attribute None example_state 9
      COGL_VERTICES_MODE_TRIANGLE_STRIP "[example_color, example_attribute]" 0 undefined]
  have nine: "snd (fst (get_wire_lines example_attribute COGL_VERTICES_MODE_TRIANGLES 9 None
        example_state)) = 2 * 9"
    by simp
  from wireframe_segments [of example_attribute None example_state 2
      COGL_VERTICES_MODE_TRIANGLE_STRIP "[example_color, example_attribute]" 0 undefined] h
  have two: "fst (get_wire_lines example_attribute COGL_VERTICES_MODE_TRIANGLE_STRIP 2 None
        example_state) = (None, 0)" and some: "?r \<noteq> None"
    by simp_all
  from some obtain t where t: "?r = Some t" by auto
  from wireframe_segments [of example_attribute None example_state 2
      COGL_VERTICES_MODE_TRIANGLE_STRIP "[example_color, example_attribute]" 0 t] h t
  have "draw_calls t = [glDrawArrays COGL_VERTICES_MODE_LINES 0 0]"
    by simp
  with h nine two t show ?thesis by simp
qed

text \<open>C7, as stated, fails: five vertices drawn as TRIANGLES with wireframe
  debugging on. The draw returns, and after the real draw call it has issued a
  second one, the overlay draw of \<^verbatim>\<open>draw_wireframe\<close> (over zero vertices).\<close>

theorem wireframe_overlay_draw_is_issued:
  "map_option draw_calls
     (cogl_draw_vertex_attributes_array_internal COGL_VERTICES_MODE_TRIANGLES 0 5
        [example_attribute] (example_state\<lparr>debug_wireframe := True\<rparr>))
   = Some [glDrawArrays COGL_VERTICES_MODE_TRIANGLES 0 5,
           glDrawArrays COGL_VERTICES_MODE_LINES 0 0]"
proof -
  let ?s = "example_state\<lparr>debug_wireframe := True\<rparr>"
  have src: "cogl_get_source ?s = Some 0" "0 < length (pipelines ?s)"
    by (simp_all add: example_state_def cogl_get_source_def)
  then have "draw_arrays_flushed COGL_VERTICES_MODE_TRIANGLES 0 5 [example_attribute]
      initial_validate_state ?s \<noteq> None"
    by (simp add: draw_arrays_flushed_None)
  then obtain s1 where d: "draw_arrays_flushed COGL_VERTICES_MODE_TRIANGLES 0 5
      [example_attribute] initial_validate_state ?s = Some s1"
    by auto
  have ok: "wire_pipeline_ok ?s"
    by (simp add: wire_pipeline_ok_def example_state_def)
  from d obtain q s0 where e: "enable_gl_state [example_attribute] initial_validate_state ?s
      = Some (q, s0)"
    and s1: "s1 = disable_gl_state [example_attribute] q
                    (emit [glDrawArrays COGL_VERTICES_MODE_TRIANGLES 0 5] s0)"
    by (auto simp: draw_arrays_flushed_def split: option.splits)
  from enable_gl_state_wire_ok [OF e] ok
  have "wire_pipeline_ok (emit [glDrawArrays COGL_VERTICES_MODE_TRIANGLES 0 5] s0)"
    by (auto simp: wire_pipeline_ok_def emit_def split: option.splits)
  with s1 have ok1: "wire_pipeline_ok s1" by (simp add: disable_gl_state_wire_ok)
  from draw_arrays_flushed_draw_calls [OF d]
  have c1: "draw_calls s1 = [glDrawArrays COGL_VERTICES_MODE_TRIANGLES 0 5]"
    and dbg: "debug_wireframe s1"
    by (simp_all add: draw_calls_def example_state_def)
  from draw_wireframe_succeeds [OF ok1, of COGL_VERTICES_MODE_TRIANGLES 0 5
      "[example_attribute]" None]
  obtain s2 where w: "draw_wireframe COGL_VERTICES_MODE_TRIANGLES 0 5 [example_attribute] None s1
      = Some s2"
    by auto
  have p: "find (\<lambda>a. name a = ''cogl_position_in'') [example_attribute] = Some example_attribute"
    by (simp add: example_attribute_def)
  have "fst (get_wire_lines example_attribute COGL_VERTICES_MODE_TRIANGLES 5 None s1) = (None, 0)"
    by (rule get_wire_lines_out_None) simp_all
  with draw_wireframe_draw_calls [OF p w] c1
  have "draw_calls s2 = [glDrawArrays COGL_VERTICES_MODE_TRIANGLES 0 5,
           glDrawArrays COGL_VERTICES_MODE_LINES 0 0]"
    by simp
  with d dbg w show ?thesis
    by (simp add: cogl_draw_vertex_attributes_array_internal_def
        cogl_draw_vertex_attributes_array_real_def)
qed

subsection \<open>Indexed draws\<close>

text \<open>C6. The width of an index is 1, 2 or 4 bytes for unsigned-byte, unsigned-short
  and unsigned-int indices. Whenever the indexed draw returns, it has issued exactly
  one \<^verbatim>\<open>glDrawElements\<close> call, and the pointer passed to it is the base of the
  bound index array plus the offset of the indices plus width times
  \<^verbatim>\<open>first_vertex\<close> (in \<^verbatim>\<open>size_t\<close> arithmetic). The draw does return when there is a
  source pipeline (and, with wireframe debugging on, the static wire pipeline is
  unset or valid).\<close>

theorem indexed_draw_byte_offset:
  "sizeof_index_type COGL_INDICES_TYPE_UNSIGNED_BYTE = 1
   \<and> sizeof_index_type COGL_INDICES_TYPE_UNSIGNED_SHORT = 2
   \<and> sizeof_index_type COGL_INDICES_TYPE_UNSIGNED_INT = 4
   \<and> (cogl_draw_indexed_vertex_attributes_array_real mode first n ix attrs state s = Some s'
        \<longrightarrow> filter is_draw_elements (calls s')
            = filter is_draw_elements (calls s)
              @ [glDrawElements mode n
                   (case index_type ix of
                      COGL_INDICES_TYPE_UNSIGNED_BYTE \<Rightarrow> GL_UNSIGNED_BYTE
                    | COGL_INDICES_TYPE_UNSIGNED_SHORT \<Rightarrow> GL_UNSIGNED_SHORT
                    | COGL_INDICES_TYPE_UNSIGNED_INT \<Rightarrow> GL_UNSIGNED_INT)
                   (bind_address s (index_array ix) + index_offset ix
                      + sizeof_index_type (index_type ix) * of_int first)])
   \<and> (cogl_get_source s = Some p \<and> p < length (pipelines s)
        \<and> (debug_wireframe s \<longrightarrow> wire_pipeline_ok s)
        \<longrightarrow> cogl_draw_indexed_vertex_attributes_array_real mode first n ix attrs state s \<noteq> None)"
proof -
  let ?d = "glDrawElements mode n
                   (case index_type ix of
                      COGL_INDICES_TYPE_UNSIGNED_BYTE \<Rightarrow> GL_UNSIGNED_BYTE
                    | COGL_INDICES_TYPE_UNSIGNED_SHORT \<Rightarrow> GL_UNSIGNED_SHORT
                    | COGL_INDICES_TYPE_UNSIGNED_INT \<Rightarrow> GL_UNSIGNED_INT)
                   (bind_address s (index_array ix) + index_offset ix
                      + sizeof_index_type (index_type ix) * of_int first)"
  have de: "is_draw_elements ?d" by (simp add: is_draw_elements_def)
  have one: "cogl_draw_indexed_vertex_attributes_array_real mode first n ix attrs state s = Some s'
        \<longrightarrow> filter is_draw_elements (calls s') = filter is_draw_elements (calls s) @ [?d]"
  proof
    assume r: "cogl_draw_indexed_vertex_attributes_array_real mode first n ix attrs state s
                 = Some s'"
    then obtain q s1 where e: "enable_gl_state attrs state s = Some (q, s1)"
      by (cases "enable_gl_state attrs state s")
        (auto simp: cogl_draw_indexed_vertex_attributes_array_real_def)
    from draw_indexed_unfold [OF e, of mode first n ix]
    obtain s5 where u: "cogl_draw_indexed_vertex_attributes_array_real mode first n ix attrs state s
            = (if debug_wireframe s then draw_wireframe mode first n attrs (Some ix) s5
               else Some s5)"
      and dc: "draw_calls s5 = draw_calls s @ [?d]"
      by blast
    have "\<exists>rest. draw_calls s' = draw_calls s5 @ rest \<and> filter is_draw_elements rest = []"
    proof (cases "debug_wireframe s")
      case False
      with u r show ?thesis by simp
    next
      case True
      with u r have w: "draw_wireframe mode first n attrs (Some ix) s5 = Some s'" by simp
      show ?thesis
      proof (cases "find (\<lambda>a. name a = ''cogl_position_in'') attrs")
        case None
        with w show ?thesis by (simp add: draw_wireframe_def)
      next
        case (Some position)
        from draw_wireframe_draw_calls [OF Some w] show ?thesis
          by (simp add: is_draw_elements_def)
      qed
    qed
    then obtain rest where "draw_calls s' = draw_calls s5 @ rest"
      and "filter is_draw_elements rest = []"
      by blast
    with dc de show "filter is_draw_elements (calls s')
        = filter is_draw_elements (calls s) @ [?d]"
      by (simp add: filter_draw_elements)
  qed
  have two: "cogl_get_source s = Some p \<and> p < length (pipelines s)
        \<and> (debug_wireframe s \<longrightarrow> wire_pipeline_ok s)
        \<longrightarrow> cogl_draw_indexed_vertex_attributes_array_real mode first n ix attrs state s \<noteq> None"
  proof
    assume h: "cogl_get_source s = Some p \<and> p < length (pipelines s)
        \<and> (debug_wireframe s \<longrightarrow> wire_pipeline_ok s)"
    then have "enable_gl_state attrs state s \<noteq> None"
      by (simp add: enable_gl_state_None)
    then obtain q s1 where e: "enable_gl_state attrs state s = Some (q, s1)"
      by (cases "enable_gl_state attrs state s") auto
    from draw_indexed_unfold [OF e, of mode first n ix]
    obtain s5 where u: "cogl_draw_indexed_vertex_attributes_array_real mode first n ix attrs state s
            = (if debug_wireframe s then draw_wireframe mode first n attrs (Some ix) s5
               else Some s5)"
      and ok: "wire_pipeline_ok s \<longrightarrow> wire_pipeline_ok s5"
      by blast
    from h u ok draw_wireframe_succeeds [of s5 mode first n attrs "Some ix"]
    show "cogl_draw_indexed_vertex_attributes_array_real mode first n ix attrs state s
        \<noteq> None"
      by auto
  qed
  from one two show ?thesis by (simp add: sizeof_index_type_def)
qed

text \<open>C6, at a concrete input: three unsigned-short indices starting at index 5 of
  an index array (buffer 7, bound at address 1000) whose indices start 64 bytes in.
  The draw returns and its \<^verbatim>\<open>glDrawElements\<close> call gets \<open>1000 + 64 + 2 * 5\<close>.\<close>

theorem indexed_draw_byte_offset_witness:
  "cogl_get_source (example_state\<lparr>bind_address := (\<lambda>_. 0)(7 := 1000)\<rparr>) = Some 0
   \<and> 0 < length (pipelines (example_state\<lparr>bind_address := (\<lambda>_. 0)(7 := 1000)\<rparr>))
   \<and> \<not> debug_wireframe (example_state\<lparr>bind_address := (\<lambda>_. 0)(7 := 1000)\<rparr>)
   \<and> map_option (\<lambda>t. filter is_draw_elements (calls t))
       (cogl_draw_indexed_vertex_attributes_array_real COGL_VERTICES_MODE_TRIANGLES 5 3
          \<lparr>index_array = 7, index_offset = 64, index_type = COGL_INDICES_TYPE_UNSIGNED_SHORT\<rparr>
          [example_attribute] initial_validate_state
          (example_state\<lparr>bind_address := (\<lambda>_. 0)(7 := 1000)\<rparr>))
     = Some [glDrawElements COGL_VERTICES_MODE_TRIANGLES 3 GL_UNSIGNED_SHORT 1074]"
proof -
  let ?s = "example_state\<lparr>bind_address := (\<lambda>_. 0)(7 := 1000)\<rparr>"
  let ?ix = "\<lparr>index_array = 7, index_offset = 64, index_type = COGL_INDICES_TYPE_UNSIGNED_SHORT\<rparr>"
  let ?r = "cogl_draw_indexed_vertex_attributes_array_real COGL_VERTICES_MODE_TRIANGLES 5 3
          ?ix [example_attribute] initial_validate_state ?s"
  have h: "cogl_get_source ?s = Some 0" "0 < length (pipelines ?s)" "\<not> debug_wireframe ?s"
      "calls ?s = []"
    by (simp_all add: example_state_def cogl_get_source_def)
  have some: "?r \<noteq> None"
    using indexed_draw_byte_offset [of COGL_VERTICES_MODE_TRIANGLES 5 3 ?ix
        "[example_attribute]" initial_validate_state ?s undefined 0] h
    by simp
  then obtain t where t: "?r = Some t" by auto
  from indexed_draw_byte_offset [of COGL_VERTICES_MODE_TRIANGLES 5 3 ?ix
        "[example_attribute]" initial_validate_state ?s t 0] t h
  have "filter is_draw_elements (calls t)
      = [glDrawElements COGL_VERTICES_MODE_TRIANGLES 3 GL_UNSIGNED_SHORT 1074]"
    by (simp add: sizeof_index_type_def)
  with t h show ?thesis by simp
qed

end
